theory Spec2Isabelle
  imports Complex_Main
begin

section \<open>JSON values and the Python operations applied to them\<close>

text \<open>
  Every value the program handles comes out of \<open>r.json()\<close>, so the data model is the
  parsed JSON value as Python sees it. Numbers are rationals: Python compares ints and
  finite floats exactly, so each finite JSON number is its mathematical value. A parsed
  object is an association list; lookups read it with \<open>map_of\<close>. Strings are byte
  lists, ASCII as written.
\<close>

datatype json =
    JNull
  | JBool bool
  | JNum rat
  | JStr string
  | JArr "json list"
  | JObj "(string \<times> json) list"

datatype py_error =
    KeyError
  | IndexError
  | TypeError
  | AttributeError
  | RequestException
  | JSONDecodeError
  | SpotifyException

definition and_then :: "py_error + 'a \<Rightarrow> ('a \<Rightarrow> py_error + 'b) \<Rightarrow> py_error + 'b" where
  "and_then r f = (case r of Inl e \<Rightarrow> Inl e | Inr x \<Rightarrow> f x)"

text \<open>Truth value of an object, as \<open>if x\<close> and \<open>not x\<close> test it.\<close>

fun truthy :: "json \<Rightarrow> bool" where
  "truthy JNull = False"
| "truthy (JBool b) = b"
| "truthy (JNum r) = (r \<noteq> 0)"
| "truthy (JStr s) = (s \<noteq> [])"
| "truthy (JArr xs) = (xs \<noteq> [])"
| "truthy (JObj kvs) = (kvs \<noteq> [])"

text \<open>\<open>x[k]\<close> with a string \<open>k\<close>: only a dict accepts it.\<close>

fun getitem :: "json \<Rightarrow> string \<Rightarrow> py_error + json" where
  "getitem (JObj kvs) k = (case map_of kvs k of None \<Rightarrow> Inl KeyError | Some v \<Rightarrow> Inr v)"
| "getitem JNull k = Inl TypeError"
| "getitem (JBool b) k = Inl TypeError"
| "getitem (JNum r) k = Inl TypeError"
| "getitem (JStr s) k = Inl TypeError"
| "getitem (JArr xs) k = Inl TypeError"

text \<open>\<open>x[0]\<close>: a dict parsed from JSON has string keys only, so \<open>0\<close> is never one.\<close>

fun getitem0 :: "json \<Rightarrow> py_error + json" where
  "getitem0 (JArr xs) = (case xs of [] \<Rightarrow> Inl IndexError | x # _ \<Rightarrow> Inr x)"
| "getitem0 (JStr s) = (case s of [] \<Rightarrow> Inl IndexError | c # _ \<Rightarrow> Inr (JStr [c]))"
| "getitem0 (JObj kvs) = Inl KeyError"
| "getitem0 JNull = Inl TypeError"
| "getitem0 (JBool b) = Inl TypeError"
| "getitem0 (JNum r) = Inl TypeError"

text \<open>\<open>x.get(k, d)\<close>: a method of dict alone.\<close>

fun dict_get :: "json \<Rightarrow> string \<Rightarrow> json \<Rightarrow> py_error + json" where
  "dict_get (JObj kvs) k d = Inr (case map_of kvs k of None \<Rightarrow> d | Some v \<Rightarrow> v)"
| "dict_get JNull k d = Inl AttributeError"
| "dict_get (JBool b) k d = Inl AttributeError"
| "dict_get (JNum r) k d = Inl AttributeError"
| "dict_get (JStr s) k d = Inl AttributeError"
| "dict_get (JArr xs) k d = Inl AttributeError"

text \<open>
  Lower-casing of one character. The letters A to Z are the only characters whose lower
  case is an ASCII letter that occurs in a key of the table of line 53, so leaving every
  other byte as it is gives the same lookup as Python's \<open>str.lower\<close>.
\<close>

definition lower_char :: "char \<Rightarrow> char" where
  "lower_char c =
     (case map_of (zip ''ABCDEFGHIJKLMNOPQRSTUVWXYZ'' ''abcdefghijklmnopqrstuvwxyz'') c of
        Some d \<Rightarrow> d
      | None \<Rightarrow> c)"

text \<open>\<open>x.lower()\<close>: a method of str alone.\<close>

fun str_lower :: "json \<Rightarrow> py_error + string" where
  "str_lower (JStr s) = Inr (map lower_char s)"
| "str_lower JNull = Inl AttributeError"
| "str_lower (JBool b) = Inl AttributeError"
| "str_lower (JNum r) = Inl AttributeError"
| "str_lower (JArr xs) = Inl AttributeError"
| "str_lower (JObj kvs) = Inl AttributeError"

text \<open>\<open>for t in x\<close>: a list yields its items, a dict its keys, a str its characters.\<close>

fun py_iter :: "json \<Rightarrow> py_error + json list" where
  "py_iter (JArr xs) = Inr xs"
| "py_iter (JObj kvs) = Inr (map (\<lambda>kv. JStr (fst kv)) kvs)"
| "py_iter (JStr s) = Inr (map (\<lambda>c. JStr [c]) s)"
| "py_iter JNull = Inl TypeError"
| "py_iter (JBool b) = Inl TypeError"
| "py_iter (JNum r) = Inl TypeError"

text \<open>
  Dictionary keys: \<open>None\<close>, numbers and strings hash; \<open>True\<close> and \<open>False\<close> are the
  numbers 1 and 0; a list or a dict as a key raises TypeError.
\<close>

datatype key = KNone | KNum rat | KStr string

fun hash_key :: "json \<Rightarrow> py_error + key" where
  "hash_key JNull = Inr KNone"
| "hash_key (JBool b) = Inr (KNum (if b then 1 else 0))"
| "hash_key (JNum r) = Inr (KNum r)"
| "hash_key (JStr s) = Inr (KStr s)"
| "hash_key (JArr xs) = Inl TypeError"
| "hash_key (JObj kvs) = Inl TypeError"

text \<open>\<open>x >= n\<close> for an int \<open>n\<close>: numbers and bools compare, anything else raises.\<close>

fun ge_int :: "json \<Rightarrow> int \<Rightarrow> py_error + bool" where
  "ge_int (JNum r) n = Inr (of_int n \<le> r)"
| "ge_int (JBool b) n = Inr (n \<le> (if b then 1 else 0))"
| "ge_int JNull n = Inl TypeError"
| "ge_int (JStr s) n = Inl TypeError"
| "ge_int (JArr xs) n = Inl TypeError"
| "ge_int (JObj kvs) n = Inl TypeError"

text \<open>\<open>x != n\<close> for an int \<open>n\<close>: never raises; a non-number differs from every int.\<close>

fun ne_int :: "json \<Rightarrow> int \<Rightarrow> bool" where
  "ne_int (JNum r) n = (r \<noteq> of_int n)"
| "ne_int (JBool b) n = ((if b then 1 else 0) \<noteq> n)"
| "ne_int JNull n = True"
| "ne_int (JStr s) n = True"
| "ne_int (JArr xs) n = True"
| "ne_int (JObj kvs) n = True"

text \<open>
  \<open>xs[:n]\<close>: a negative \<open>n\<close> drops that many items from the end. A list and a str
  can be sliced; a dict raises (TypeError before Python 3.12, KeyError from 3.12 on), and so
  do \<open>None\<close>, a bool and a number.
\<close>

definition py_take :: "int \<Rightarrow> 'a list \<Rightarrow> 'a list" where
  "py_take n xs = (if 0 \<le> n then take (nat n) xs else take (length xs - nat (- n)) xs)"

fun slice_to :: "json \<Rightarrow> int \<Rightarrow> py_error + json" where
  "slice_to (JArr xs) n = Inr (JArr (py_take n xs))"
| "slice_to (JStr s) n = Inr (JStr (py_take n s))"
| "slice_to (JObj kvs) n = Inl TypeError"
| "slice_to JNull n = Inl TypeError"
| "slice_to (JBool b) n = Inl TypeError"
| "slice_to (JNum r) n = Inl TypeError"

text \<open>\<open>sep.join(xs)\<close>: every item must be a str.\<close>

fun join_strs :: "string \<Rightarrow> json list \<Rightarrow> py_error + string" where
  "join_strs sep [] = Inr []"
| "join_strs sep [x] = (case x of JStr s \<Rightarrow> Inr s | _ \<Rightarrow> Inl TypeError)"
| "join_strs sep (x # y # ys) =
     (case x of
        JStr s \<Rightarrow> and_then (join_strs sep (y # ys)) (\<lambda>r. Inr (s @ sep @ r))
      | _ \<Rightarrow> Inl TypeError)"

text \<open>A list comprehension \<open>[f(t) for t in xs]\<close>: the first item that raises ends it.\<close>

fun comprehend :: "('a \<Rightarrow> py_error + 'b) \<Rightarrow> 'a list \<Rightarrow> py_error + 'b list" where
  "comprehend f [] = Inr []"
| "comprehend f (x # xs) =
     and_then (f x) (\<lambda>y. and_then (comprehend f xs) (\<lambda>ys. Inr (y # ys)))"


section \<open>The outside world: HTTP services, the Spotify client, the clock, the page\<close>

text \<open>
  \<open>HEADERS\<close> is either empty or carries the token, whose text the f-string
  \<open>f"Bearer {APP_TOKEN}"\<close> interpolates.
\<close>

datatype headers = NoHeaders | Bearer json

text \<open>The four fields of \<open>datetime.now()\<close> that \<open>strftime('%m/%d %H:%M')\<close> reads.\<close>

record datetime =
  month :: nat
  day :: nat
  hour :: nat
  minute :: nat

text \<open>
  Each service is a function from the request to what \<open>requests.get(...).json()\<close>
  (or the spotipy method) gives: \<open>Inl\<close> when the call or the JSON decoding raises,
  \<open>Inr\<close> the parsed body otherwise. One run sends each kind of request at most once,
  so a fixed answer per request is all a run can observe.
\<close>

record world =
  weather_api :: "string \<Rightarrow> py_error + json"
  token_api :: "py_error + json"
  search_api :: "headers \<Rightarrow> string \<Rightarrow> int \<Rightarrow> py_error + json"
  features_api :: "headers \<Rightarrow> string \<Rightarrow> py_error + json"
  spotify_client :: "py_error + unit"
  sp_me :: "py_error + json"
  sp_user_playlist_create :: "json \<Rightarrow> string \<Rightarrow> bool \<Rightarrow> string \<Rightarrow> py_error + json"
  sp_playlist_add_items :: "json \<Rightarrow> json list \<Rightarrow> py_error + json"
  now :: datetime

text \<open>What a run does to the outside, in order: requests sent and page elements drawn.\<close>

datatype event =
    WeatherRequest string
  | TokenRequest
  | SearchRequest headers string int
  | FeaturesRequest headers string
  | SpotifyClient
  | SpMe
  | SpPlaylistCreate json string bool string
  | SpPlaylistAddItems json "json list"
  | StError string
  | StErrorException string py_error
  | StWarning string
  | StStop
  | StSuccessWeather string json json
  | StSubheader
  | StColumns nat
  | StImage nat json
  | StMarkdownName nat json
  | StCaption nat string
  | StLinkButton nat json
  | StMarkdownCreating
  | StSuccessCreated
  | StLinkButtonPlaylist json

text \<open>
  An effectful computation: its result (or the exception that ended it) and the events it
  produced until then.
\<close>

type_synonym 'a io = "(py_error + 'a) \<times> event list"

definition io_bind :: "'a io \<Rightarrow> ('a \<Rightarrow> 'b io) \<Rightarrow> 'b io" where
  "io_bind m f =
     (case m of
        (Inl e, evs) \<Rightarrow> (Inl e, evs)
      | (Inr x, evs) \<Rightarrow> (case f x of (r, evs') \<Rightarrow> (r, evs @ evs')))"

definition io_pure :: "py_error + 'a \<Rightarrow> 'a io" where
  "io_pure r = (r, [])"

definition io_call :: "event \<Rightarrow> py_error + 'a \<Rightarrow> 'a io" where
  "io_call ev r = (r, [ev])"

section \<open>Weather\<close>

text \<open>\<open>get_weather\<close>, lines 37-49: any exception becomes \<open>None\<close>.\<close>

definition get_weather :: "world \<Rightarrow> string \<Rightarrow> json io" where
  "get_weather w city =
     io_call (WeatherRequest city)
       (case weather_api w city of Inl e \<Rightarrow> Inr JNull | Inr body \<Rightarrow> Inr body)"

definition mapping :: "(string \<times> string) list" where
  "mapping =
     [(''clear'', ''happy pop bright''),
      (''clouds'', ''indie chill''),
      (''rain'', ''lofi rainy chill''),
      (''snow'', ''cozy acoustic''),
      (''thunderstorm'', ''dark edm'')]"

text \<open>\<open>weather_to_keyword\<close>, lines 51-60.\<close>

definition weather_to_keyword :: "json \<Rightarrow> py_error + string" where
  "weather_to_keyword weather =
     and_then (getitem weather ''weather'') (\<lambda>ws.
     and_then (getitem0 ws) (\<lambda>w0.
     and_then (getitem w0 ''main'') (\<lambda>m.
     and_then (str_lower m) (\<lambda>desc.
     Inr (case map_of mapping desc of None \<Rightarrow> ''chill mood'' | Some kw \<Rightarrow> kw)))))"

section \<open>Spotify search with the application token\<close>

text \<open>\<open>get_app_token\<close>, lines 65-69: no \<open>try\<close> around the request.\<close>

definition get_app_token :: "world \<Rightarrow> json io" where
  "get_app_token w =
     io_call TokenRequest
       (and_then (token_api w) (\<lambda>body. dict_get body ''access_token'' JNull))"

text \<open>Line 72.\<close>

definition HEADERS :: "json \<Rightarrow> headers" where
  "HEADERS APP_TOKEN = (if truthy APP_TOKEN then Bearer APP_TOKEN else NoHeaders)"

text \<open>\<open>search_tracks\<close>, lines 74-81: any exception becomes the empty list.\<close>

definition search_tracks :: "world \<Rightarrow> headers \<Rightarrow> string \<Rightarrow> int \<Rightarrow> json io" where
  "search_tracks w hdrs query limit =
     io_call (SearchRequest hdrs query limit)
       (case and_then (search_api w hdrs query limit) (\<lambda>body.
             and_then (getitem body ''tracks'') (\<lambda>tracks.
             getitem tracks ''items'')) of
          Inl e \<Rightarrow> Inr (JArr [])
        | Inr items \<Rightarrow> Inr items)"

text \<open>
  \<open>get_audio_features\<close>, lines 83-89. The parameters are built before the request is
  sent, so when \<open>",".join(ids)\<close> raises no request goes out.
\<close>

definition get_audio_features :: "world \<Rightarrow> headers \<Rightarrow> json list \<Rightarrow> json io" where
  "get_audio_features w hdrs ids =
     (case join_strs '','' ids of
        Inl e \<Rightarrow> io_pure (Inr (JArr []))
      | Inr joined \<Rightarrow>
          io_call (FeaturesRequest hdrs joined)
            (case and_then (features_api w hdrs joined) (\<lambda>body.
                  getitem body ''audio_features'') of
               Inl e \<Rightarrow> Inr (JArr [])
             | Inr feats \<Rightarrow> Inr feats))"

section \<open>Recommendation modes\<close>

text \<open>\<open>generate_basic\<close>, lines 94-96.\<close>

definition generate_basic :: "world \<Rightarrow> headers \<Rightarrow> json \<Rightarrow> int \<Rightarrow> json io" where
  "generate_basic w hdrs weather track_limit =
     io_bind (io_pure (weather_to_keyword weather)) (\<lambda>kw.
     search_tracks w hdrs kw track_limit)"

text \<open>
  Line 104, \<open>{f["id"]: f for f in feats if f}\<close>: falsy entries are skipped, and a later
  entry replaces an earlier one under the same id.
\<close>

fun build_fmap :: "(key \<rightharpoonup> json) \<Rightarrow> json list \<Rightarrow> py_error + (key \<rightharpoonup> json)" where
  "build_fmap fmap [] = Inr fmap"
| "build_fmap fmap (f # fs) =
     (if truthy f then
        and_then (getitem f ''id'') (\<lambda>i.
        and_then (hash_key i) (\<lambda>k.
        build_fmap (fmap(k \<mapsto> f)) fs))
      else build_fmap fmap fs)"

text \<open>
  Lines 108-109, the test of one candidate: \<open>f = fmap.get(t["id"])\<close>, then
  \<open>f and f.get("tempo", 0) >= min_bpm\<close>.
\<close>

definition meets_tempo :: "(key \<rightharpoonup> json) \<Rightarrow> int \<Rightarrow> json \<Rightarrow> py_error + bool" where
  "meets_tempo fmap min_bpm t =
     and_then (getitem t ''id'') (\<lambda>i.
     and_then (hash_key i) (\<lambda>k.
       (case fmap k of
          None \<Rightarrow> Inr False
        | Some f \<Rightarrow>
            if truthy f
            then and_then (dict_get f ''tempo'' (JNum 0)) (\<lambda>tempo. ge_int tempo min_bpm)
            else Inr False)))"

text \<open>Lines 106-110, the loop that appends the candidates passing the test.\<close>

fun tempo_loop :: "(key \<rightharpoonup> json) \<Rightarrow> int \<Rightarrow> json list \<Rightarrow> json list \<Rightarrow> py_error + json list" where
  "tempo_loop fmap min_bpm result [] = Inr result"
| "tempo_loop fmap min_bpm result (t # ts) =
     and_then (meets_tempo fmap min_bpm t) (\<lambda>keep.
     tempo_loop fmap min_bpm (if keep then result @ [t] else result) ts)"

text \<open>\<open>generate_tempo\<close>, lines 98-115.\<close>

definition generate_tempo :: "world \<Rightarrow> headers \<Rightarrow> json \<Rightarrow> int \<Rightarrow> int \<Rightarrow> json io" where
  "generate_tempo w hdrs weather min_bpm track_limit =
     io_bind (io_pure (weather_to_keyword weather)) (\<lambda>kw.
     io_bind (search_tracks w hdrs (kw @ '' upbeat dance'') (track_limit * 3)) (\<lambda>base.
     io_bind (io_pure (and_then (py_iter base) (comprehend (\<lambda>t. getitem t ''id'')))) (\<lambda>ids.
     io_bind (get_audio_features w hdrs ids) (\<lambda>feats.
     io_bind (io_pure (and_then (py_iter feats) (build_fmap Map.empty))) (\<lambda>fmap.
     io_bind (io_pure (and_then (py_iter base) (tempo_loop fmap min_bpm []))) (\<lambda>result.
     if result = [] then io_pure (slice_to base track_limit)
     else io_pure (Inr (JArr (py_take track_limit result)))))))))"

text \<open>\<open>generate_custom\<close>, lines 117-119.\<close>

definition generate_custom :: "world \<Rightarrow> headers \<Rightarrow> json \<Rightarrow> string \<Rightarrow> int \<Rightarrow> json io" where
  "generate_custom w hdrs weather user_kw track_limit =
     io_bind (io_pure (weather_to_keyword weather)) (\<lambda>kw.
     search_tracks w hdrs (kw @ '' '' @ user_kw) track_limit)"

section \<open>Playlist creation\<close>

text \<open>
  \<open>%m\<close>, \<open>%d\<close>, \<open>%H\<close> and \<open>%M\<close> print a field of a datetime, which is below 100, as
  two decimal digits.
\<close>

definition digit_char :: "nat \<Rightarrow> char" where
  "digit_char d = ''0123456789'' ! (d mod 10)"

definition two_digits :: "nat \<Rightarrow> string" where
  "two_digits n = [digit_char (n div 10), digit_char n]"

definition strftime :: "datetime \<Rightarrow> string" where
  "strftime t =
     two_digits (month t) @ ''/'' @ two_digits (day t) @ '' '' @
     two_digits (hour t) @ '':'' @ two_digits (minute t)"

text \<open>The description passed at line 132, as its UTF-8 bytes.\<close>

definition playlist_description :: string where
  "playlist_description =
     [CHR 0xEB, CHR 0x82, CHR 0xA0, CHR 0xEC, CHR 0x94, CHR 0xA8, CHR 0x20, CHR 0xEA,
      CHR 0xB8, CHR 0xB0, CHR 0xEB, CHR 0xB0, CHR 0x98, CHR 0x20, CHR 0xEC, CHR 0x9E,
      CHR 0x90, CHR 0xEB, CHR 0x8F, CHR 0x99, CHR 0x20, CHR 0xEC, CHR 0xB6, CHR 0x94,
      CHR 0xEC, CHR 0xB2, CHR 0x9C, CHR 0x20, CHR 0xED, CHR 0x94, CHR 0x8C, CHR 0xEB,
      CHR 0xA0, CHR 0x88, CHR 0xEC, CHR 0x9D, CHR 0xB4, CHR 0xEB, CHR 0xA6, CHR 0xAC,
      CHR 0xEC, CHR 0x8A, CHR 0xA4, CHR 0xED, CHR 0x8A, CHR 0xB8]"

text \<open>
  \<open>create_playlist_auto\<close>, lines 124-136: nothing is caught here, every exception
  goes to the caller.
\<close>

definition create_playlist_auto :: "world \<Rightarrow> string \<Rightarrow> json list \<Rightarrow> json io" where
  "create_playlist_auto w city ids =
     io_bind (io_call SpotifyClient (spotify_client w)) (\<lambda>sp.
     io_bind (io_call SpMe (sp_me w)) (\<lambda>me.
     io_bind (io_pure (getitem me ''id'')) (\<lambda>user_id.
     io_bind (io_pure (Inr (''Weather Mix - '' @ city @ '' ('' @ strftime (now w) @ '')''))) (\<lambda>name.
     io_bind (io_call (SpPlaylistCreate user_id name False playlist_description)
                (sp_user_playlist_create w user_id name False playlist_description)) (\<lambda>playlist.
     io_bind (io_pure (getitem playlist ''id'')) (\<lambda>playlist_id.
     io_bind (io_call (SpPlaylistAddItems playlist_id ids)
                (sp_playlist_add_items w playlist_id ids)) (\<lambda>added.
     io_pure (and_then (getitem playlist ''external_urls'') (\<lambda>urls.
              getitem urls ''spotify'')))))))))"

section \<open>The run started by the button\<close>

datatype mode = Basic | Tempo | Custom

text \<open>How a run ends when no exception escapes: at \<open>st.stop()\<close>, or at the last line.\<close>

datatype outcome = Stopped | Finished

text \<open>The texts of lines 175, 190 and 212, as their UTF-8 bytes.\<close>

definition weather_error_text :: string where
  "weather_error_text =
     [CHR 0xEB, CHR 0x82, CHR 0xA0, CHR 0xEC, CHR 0x94, CHR 0xA8, CHR 0x20, CHR 0xEC,
      CHR 0xA0, CHR 0x95, CHR 0xEB, CHR 0xB3, CHR 0xB4, CHR 0xEB, CHR 0xA5, CHR 0xBC,
      CHR 0x20, CHR 0xEC, CHR 0xB0, CHR 0xBE, CHR 0xEC, CHR 0x9D, CHR 0x84, CHR 0x20,
      CHR 0xEC, CHR 0x88, CHR 0x98, CHR 0x20, CHR 0xEC, CHR 0x97, CHR 0x86, CHR 0xEC,
      CHR 0x8A, CHR 0xB5, CHR 0xEB, CHR 0x8B, CHR 0x88, CHR 0xEB, CHR 0x8B, CHR 0xA4,
      CHR 0x2E]"

definition no_results_text :: string where
  "no_results_text =
     [CHR 0xEC, CHR 0xB6, CHR 0x94, CHR 0xEC, CHR 0xB2, CHR 0x9C, CHR 0x20, CHR 0xEA,
      CHR 0xB2, CHR 0xB0, CHR 0xEA, CHR 0xB3, CHR 0xBC, CHR 0xEA, CHR 0xB0, CHR 0x80,
      CHR 0x20, CHR 0xEC, CHR 0x97, CHR 0x86, CHR 0xEC, CHR 0x8A, CHR 0xB5, CHR 0xEB,
      CHR 0x8B, CHR 0x88, CHR 0xEB, CHR 0x8B, CHR 0xA4, CHR 0x2E]"

definition playlist_failed_text :: string where
  "playlist_failed_text =
     [CHR 0xED, CHR 0x94, CHR 0x8C, CHR 0xEB, CHR 0xA0, CHR 0x88, CHR 0xEC, CHR 0x9D,
      CHR 0xB4, CHR 0xEB, CHR 0xA6, CHR 0xAC, CHR 0xEC, CHR 0x8A, CHR 0xA4, CHR 0xED,
      CHR 0x8A, CHR 0xB8, CHR 0x20, CHR 0xEC, CHR 0x83, CHR 0x9D, CHR 0xEC, CHR 0x84,
      CHR 0xB1, CHR 0x20, CHR 0xEC, CHR 0x8B, CHR 0xA4, CHR 0xED, CHR 0x8C, CHR 0xA8,
      CHR 0x3A, CHR 0x20]"

definition io_emit :: "event \<Rightarrow> unit io" where
  "io_emit ev = io_call ev (Inr ())"

text \<open>Line 174: \<open>not weather or weather.get("cod") != 200\<close>.\<close>

definition weather_failed :: "json \<Rightarrow> py_error + bool" where
  "weather_failed weather =
     (if \<not> truthy weather then Inr True
      else and_then (dict_get weather ''cod'' JNull) (\<lambda>cod. Inr (ne_int cod 200)))"

text \<open>Lines 198-203, the body of the loop for the track at position \<open>i\<close>; gives its URI.\<close>

definition render_track :: "nat \<Rightarrow> json \<Rightarrow> json io" where
  "render_track i t =
     io_bind (io_pure (and_then (getitem t ''album'') (\<lambda>album.
                       and_then (getitem album ''images'') (\<lambda>images.
                       and_then (getitem0 images) (\<lambda>image.
                       getitem image ''url''))))) (\<lambda>url.
     io_bind (io_emit (StImage (i mod 3) url)) (\<lambda>u1.
     io_bind (io_pure (getitem t ''name'')) (\<lambda>name.
     io_bind (io_emit (StMarkdownName (i mod 3) name)) (\<lambda>u2.
     io_bind (io_pure (and_then (getitem t ''artists'') (\<lambda>artists.
                       and_then (py_iter artists) (\<lambda>as.
                       and_then (comprehend (\<lambda>a. getitem a ''name'') as) (\<lambda>names.
                       join_strs '', '' names))))) (\<lambda>caption.
     io_bind (io_emit (StCaption (i mod 3) caption)) (\<lambda>u3.
     io_bind (io_pure (and_then (getitem t ''external_urls'') (\<lambda>urls.
                       getitem urls ''spotify''))) (\<lambda>link.
     io_bind (io_emit (StLinkButton (i mod 3) link)) (\<lambda>u4.
     io_pure (getitem t ''uri'')))))))))"

text \<open>Lines 195-203: the loop over \<open>enumerate(tracks)\<close>, collecting the URIs.\<close>

fun render_tracks :: "nat \<Rightarrow> json list \<Rightarrow> json list \<Rightarrow> (json list) io" where
  "render_tracks i ids [] = io_pure (Inr ids)"
| "render_tracks i ids (t # ts) =
     io_bind (render_track i t) (\<lambda>uri. render_tracks (Suc i) (ids @ [uri]) ts)"

text \<open>Lines 205-212: the exception of the playlist creation is caught and shown.\<close>

definition publish :: "world \<Rightarrow> string \<Rightarrow> json list \<Rightarrow> outcome io" where
  "publish w city ids =
     io_bind (io_emit StMarkdownCreating) (\<lambda>u.
       (case create_playlist_auto w city ids of
          (Inl e, evs) \<Rightarrow> (Inr Finished, evs @ [StErrorException playlist_failed_text e])
        | (Inr link, evs) \<Rightarrow> (Inr Finished, evs @ [StSuccessCreated, StLinkButtonPlaylist link])))"

text \<open>
  Lines 171-212. The module-level variables the block reads are its parameters:
  \<open>HEADERS\<close>, \<open>city\<close>, \<open>mode\<close>, \<open>track_limit\<close>, \<open>min_bpm\<close>, \<open>user_kw\<close>,
  \<open>make_playlist\<close>.
\<close>

definition run :: "world \<Rightarrow> headers \<Rightarrow> string \<Rightarrow> mode \<Rightarrow> int \<Rightarrow> int \<Rightarrow> string \<Rightarrow> bool \<Rightarrow> outcome io" where
  "run w hdrs city md track_limit min_bpm user_kw make_playlist =
     io_bind (get_weather w city) (\<lambda>weather.
     io_bind (io_pure (weather_failed weather)) (\<lambda>failed.
     if failed then
       io_bind (io_emit (StError weather_error_text)) (\<lambda>u. io_call StStop (Inr Stopped))
     else
       io_bind (io_pure (and_then (getitem weather ''weather'') (\<lambda>ws.
                         and_then (getitem0 ws) (\<lambda>w0.
                         getitem w0 ''description'')))) (\<lambda>description.
       io_bind (io_pure (and_then (getitem weather ''main'') (\<lambda>m.
                         getitem m ''temp''))) (\<lambda>temp.
       io_bind (io_emit (StSuccessWeather city description temp)) (\<lambda>u1.
       io_bind (case md of
                  Basic \<Rightarrow> generate_basic w hdrs weather track_limit
                | Tempo \<Rightarrow> generate_tempo w hdrs weather min_bpm track_limit
                | Custom \<Rightarrow> generate_custom w hdrs weather user_kw track_limit) (\<lambda>tracks.
       if \<not> truthy tracks then
         io_bind (io_emit (StWarning no_results_text)) (\<lambda>u2. io_call StStop (Inr Stopped))
       else
         io_bind (io_emit StSubheader) (\<lambda>u3.
         io_bind (io_emit (StColumns 3)) (\<lambda>u4.
         io_bind (io_pure (py_iter tracks)) (\<lambda>ts.
         io_bind (render_tracks 0 [] ts) (\<lambda>ids.
         if make_playlist then publish w city ids else io_pure (Inr Finished)))))))))))"

section \<open>Sample inputs and shapes of input\<close>

text \<open>A successful weather body, two services worlds, a track and a feature record.\<close>

definition seoul_clear :: json where
  "seoul_clear =
     JObj [(''cod'', JNum 200),
           (''weather'', JArr [JObj [(''main'', JStr ''Clear''), (''description'', JStr ''clear sky'')]]),
           (''main'', JObj [(''temp'', JNum 21)]),
           (''name'', JStr ''Seoul'')]"

definition sample_track :: "string \<Rightarrow> json" where
  "sample_track i =
     JObj [(''id'', JStr i),
           (''name'', JStr (''song '' @ i)),
           (''artists'', JArr [JObj [(''name'', JStr ''artist'')]]),
           (''album'', JObj [(''images'', JArr [JObj [(''url'', JStr (''https://img/'' @ i))]])]),
           (''external_urls'', JObj [(''spotify'', JStr (''https://open.spotify.com/track/'' @ i))]),
           (''uri'', JStr (''spotify:track:'' @ i))]"

definition sample_feature :: "string \<Rightarrow> rat \<Rightarrow> json" where
  "sample_feature i bpm = JObj [(''id'', JStr i), (''tempo'', JNum bpm)]"

definition sample_world :: "(py_error + json) \<Rightarrow> json \<Rightarrow> json \<Rightarrow> world" where
  "sample_world weather items feats =
     \<lparr>weather_api = (\<lambda>city. weather),
      token_api = Inr (JObj [(''access_token'', JStr ''tok'')]),
      search_api = (\<lambda>hdrs query limit. Inr (JObj [(''tracks'', JObj [(''items'', items)])])),
      features_api = (\<lambda>hdrs ids. Inr (JObj [(''audio_features'', feats)])),
      spotify_client = Inr (),
      sp_me = Inr (JObj [(''id'', JStr ''user1'')]),
      sp_user_playlist_create = (\<lambda>user name public description.
         Inr (JObj [(''id'', JStr ''pl1''),
                    (''external_urls'', JObj [(''spotify'', JStr ''https://open.spotify.com/playlist/pl1'')])])),
      sp_playlist_add_items = (\<lambda>playlist_id items. Inr (JObj [(''snapshot_id'', JStr ''s1'')])),
      now = \<lparr>month = 11, day = 4, hour = 9, minute = 5\<rparr>\<rparr>"

definition offline_world :: world where
  "offline_world =
     \<lparr>weather_api = (\<lambda>city. Inl RequestException),
      token_api = Inl RequestException,
      search_api = (\<lambda>hdrs query limit. Inl RequestException),
      features_api = (\<lambda>hdrs ids. Inl RequestException),
      spotify_client = Inr (),
      sp_me = Inl RequestException,
      sp_user_playlist_create = (\<lambda>user name public description. Inl RequestException),
      sp_playlist_add_items = (\<lambda>playlist_id items. Inl RequestException),
      now = \<lparr>month = 11, day = 4, hour = 9, minute = 5\<rparr>\<rparr>"

text \<open>A step that does not raise.\<close>

definition succeeds :: "py_error + 'a \<Rightarrow> bool" where
  "succeeds r = (case r of Inl e \<Rightarrow> False | Inr x \<Rightarrow> True)"

text \<open>
  The expression \<open>weather["weather"][0]["main"]\<close> of line 52: a weather reading is a
  body on which it gives a string, the condition.
\<close>

definition condition_of :: "json \<Rightarrow> py_error + json" where
  "condition_of weather =
     and_then (getitem weather ''weather'') (\<lambda>ws.
     and_then (getitem0 ws) (\<lambda>w0.
     getitem w0 ''main''))"

text \<open>The body the weather service sends for an unknown city.\<close>

definition not_found_body :: json where
  "not_found_body = JObj [(''cod'', JStr ''404''), (''message'', JStr ''city not found'')]"

text \<open>
  The dictionary key of a track or of a feature record, \<open>hash(x["id"])\<close>; the feature
  records of a track's id in a feature list; a record whose tempo compares with the
  threshold; a feature entry that the comprehension of line 104 and the test of line 109
  accept. Then a pool of two tracks, three feature lists for it, and a world that serves them.
\<close>

definition key_of :: "json \<Rightarrow> py_error + key" where
  "key_of x = and_then (getitem x ''id'') hash_key"

definition entries_for :: "json list \<Rightarrow> json \<Rightarrow> json list" where
  "entries_for feats t = filter (\<lambda>f. truthy f \<and> succeeds (key_of f) \<and> key_of f = key_of t) feats"

definition tempo_comparable :: "int \<Rightarrow> json \<Rightarrow> bool" where
  "tempo_comparable min_bpm f =
     succeeds (and_then (dict_get f ''tempo'' (JNum 0)) (\<lambda>tempo. ge_int tempo min_bpm))"

definition entry_ok :: "int \<Rightarrow> json \<Rightarrow> bool" where
  "entry_ok min_bpm f = (\<not> truthy f \<or> (succeeds (key_of f) \<and> tempo_comparable min_bpm f))"

definition pool_ab :: "json list" where
  "pool_ab = [sample_track ''a'', sample_track ''b'']"

definition feats_fast :: "json list" where
  "feats_fast = [sample_feature ''a'' 120, sample_feature ''b'' 128]"

definition feats_slow :: "json list" where
  "feats_slow = [sample_feature ''a'' 90, JNull]"

definition feats_sparse :: "json list" where
  "feats_sparse = [JNull, sample_feature ''b'' 128]"

definition tempo_world :: "json list \<Rightarrow> world" where
  "tempo_world feats = sample_world (Inr seoul_clear) (JArr pool_ab) (JArr feats)"

text \<open>A pool of six tracks and a world whose search returns it whatever the limit.\<close>

definition pool_six :: "json list" where
  "pool_six = [sample_track ''a'', sample_track ''b'', sample_track ''c'',
               sample_track ''d'', sample_track ''e'', sample_track ''f'']"

definition six_world :: world where
  "six_world = sample_world (Inr seoul_clear) (JArr pool_six) (JArr [])"

section \<open>Basic facts\<close>

lemma and_then_Inr [simp]: "and_then (Inr x) f = f x"
  by (simp add: and_then_def)

lemma and_then_Inl [simp]: "and_then (Inl e) f = Inl e"
  by (simp add: and_then_def)

lemma and_then_eq_Inr: "and_then r f = Inr y \<longleftrightarrow> (\<exists>x. r = Inr x \<and> f x = Inr y)"
  by (cases r) simp_all

lemma io_bind_pure_Inr [simp]: "io_bind (io_pure (Inr x)) f = f x"
  by (simp add: io_bind_def io_pure_def split: prod.splits)

lemma io_bind_pure_Inl [simp]: "io_bind (io_pure (Inl e)) f = (Inl e, [])"
  by (simp add: io_bind_def io_pure_def)

lemma io_bind_Inr [simp]: "io_bind (Inr x, evs) f = (fst (f x), evs @ snd (f x))"
  by (simp add: io_bind_def split: prod.splits)

lemma io_bind_Inl [simp]: "io_bind (Inl e, evs) f = (Inl e, evs)"
  by (simp add: io_bind_def)

lemma keyword_cases:
  assumes "condition_of weather = Inr (JStr c)"
  shows "weather_to_keyword weather =
           Inr (case map_of mapping (map lower_char c) of None \<Rightarrow> ''chill mood'' | Some kw \<Rightarrow> kw)"
  using assms
  by (auto simp: weather_to_keyword_def condition_of_def and_then_eq_Inr)

lemma keyword_succeeds_iff:
  "succeeds (weather_to_keyword weather) \<longleftrightarrow> (\<exists>c. condition_of weather = Inr (JStr c))"
  apply (auto simp: succeeds_def weather_to_keyword_def condition_of_def and_then_eq_Inr split: sum.splits)
  subgoal for a b c d by (cases c) auto
  done

lemma io_call_simp [simp]: "io_call ev r = (r, [ev])"
  by (simp add: io_call_def)

section \<open>The mood mapper\<close>

text \<open>
  Claim C3. The mood mapper is a pure, total function on weather readings: on every body
  whose \<open>weather[0].main\<close> is a string it returns a keyword, one of the five of the
  table or the default, and raises nothing. It takes no world and produces no events, so it
  has no effect on the outside.
\<close>

theorem weather_to_keyword_total:
  assumes "condition_of weather = Inr (JStr c)"
  shows "\<exists>kw. weather_to_keyword weather = Inr kw \<and> kw \<in> set (''chill mood'' # map snd mapping)"
proof -
  let ?d = "map lower_char c"
  have eq: "weather_to_keyword weather =
      Inr (case map_of mapping ?d of None \<Rightarrow> ''chill mood'' | Some kw \<Rightarrow> kw)"
    using assms by (rule keyword_cases)
  show ?thesis
  proof (cases "map_of mapping ?d")
    case None
    with eq show ?thesis by simp
  next
    case (Some kw)
    then have "(?d, kw) \<in> set mapping" by (rule map_of_SomeD)
    then have "kw \<in> set (map snd mapping)" by force
    with eq Some show ?thesis by simp
  qed
qed

theorem weather_to_keyword_total_witness:
  "condition_of seoul_clear = Inr (JStr ''Clear'') \<and>
   (\<exists>kw. weather_to_keyword seoul_clear = Inr kw \<and> kw \<in> set (''chill mood'' # map snd mapping))"
proof -
  have h: "condition_of seoul_clear = Inr (JStr ''Clear'')"
    by (simp add: condition_of_def seoul_clear_def)
  from weather_to_keyword_total [OF h] h show ?thesis by simp
qed

lemma mapping_known:
  "map_of mapping ''clear'' = Some ''happy pop bright''"
  "map_of mapping ''clouds'' = Some ''indie chill''"
  "map_of mapping ''rain'' = Some ''lofi rainy chill''"
  "map_of mapping ''snow'' = Some ''cozy acoustic''"
  "map_of mapping ''thunderstorm'' = Some ''dark edm''"
  by (simp_all add: mapping_def)

lemma mapping_unknown:
  assumes "d \<noteq> ''clear''" "d \<noteq> ''clouds''" "d \<noteq> ''rain''" "d \<noteq> ''snow''" "d \<noteq> ''thunderstorm''"
  shows "map_of mapping d = None"
proof -
  have "d \<notin> fst ` set mapping"
    using assms unfolding mapping_def by auto
  then show ?thesis by (simp add: map_of_eq_None_iff)
qed


text \<open>
  Claim C6. On a weather reading with condition \<open>c\<close>, lower-cased as line 52 does, the
  mood mapper gives the fixed keyword of each of the five known conditions ("clear" gives
  "happy pop bright") and "chill mood" for any other; Basic mode sends one search request
  whose query is exactly that keyword.
\<close>

theorem mood_table_and_basic_query:
  assumes "condition_of weather = Inr (JStr c)"
  shows "\<exists>kw. weather_to_keyword weather = Inr kw \<and>
           (map lower_char c = ''clear'' \<longrightarrow> kw = ''happy pop bright'') \<and>
           (map lower_char c = ''clouds'' \<longrightarrow> kw = ''indie chill'') \<and>
           (map lower_char c = ''rain'' \<longrightarrow> kw = ''lofi rainy chill'') \<and>
           (map lower_char c = ''snow'' \<longrightarrow> kw = ''cozy acoustic'') \<and>
           (map lower_char c = ''thunderstorm'' \<longrightarrow> kw = ''dark edm'') \<and>
           (map lower_char c \<notin> {''clear'', ''clouds'', ''rain'', ''snow'', ''thunderstorm''}
              \<longrightarrow> kw = ''chill mood'') \<and>
           snd (generate_basic w hdrs weather track_limit) = [SearchRequest hdrs kw track_limit]"
proof -
  define d where "d = map lower_char c"
  define kw where "kw = (case map_of mapping d of None \<Rightarrow> ''chill mood'' | Some k \<Rightarrow> k)"
  have eq: "weather_to_keyword weather = Inr kw"
    unfolding kw_def d_def using assms by (rule keyword_cases)
  have q: "snd (generate_basic w hdrs weather track_limit) = [SearchRequest hdrs kw track_limit]"
    unfolding generate_basic_def search_tracks_def eq by simp
  have k1: "d = ''clear'' \<longrightarrow> kw = ''happy pop bright''"
  proof
    assume "d = ''clear''"
    then have "map_of mapping d = Some ''happy pop bright''" by (simp only: mapping_known)
    then show "kw = ''happy pop bright''" by (simp only: kw_def option.case)
  qed
  have k2: "d = ''clouds'' \<longrightarrow> kw = ''indie chill''"
  proof
    assume "d = ''clouds''"
    then have "map_of mapping d = Some ''indie chill''" by (simp only: mapping_known)
    then show "kw = ''indie chill''" by (simp only: kw_def option.case)
  qed
  have k3: "d = ''rain'' \<longrightarrow> kw = ''lofi rainy chill''"
  proof
    assume "d = ''rain''"
    then have "map_of mapping d = Some ''lofi rainy chill''" by (simp only: mapping_known)
    then show "kw = ''lofi rainy chill''" by (simp only: kw_def option.case)
  qed
  have k4: "d = ''snow'' \<longrightarrow> kw = ''cozy acoustic''"
  proof
    assume "d = ''snow''"
    then have "map_of mapping d = Some ''cozy acoustic''" by (simp only: mapping_known)
    then show "kw = ''cozy acoustic''" by (simp only: kw_def option.case)
  qed
  have k5: "d = ''thunderstorm'' \<longrightarrow> kw = ''dark edm''"
  proof
    assume "d = ''thunderstorm''"
    then have "map_of mapping d = Some ''dark edm''" by (simp only: mapping_known)
    then show "kw = ''dark edm''" by (simp only: kw_def option.case)
  qed
  have k6: "d \<notin> {''clear'', ''clouds'', ''rain'', ''snow'', ''thunderstorm''} \<longrightarrow> kw = ''chill mood''"
  proof
    assume a: "d \<notin> {''clear'', ''clouds'', ''rain'', ''snow'', ''thunderstorm''}"
    have "map_of mapping d = None"
    proof (rule mapping_unknown)
      show "d \<noteq> ''clear''" using a by auto 
      show "d \<noteq> ''clouds''" using a by auto
      show "d \<noteq> ''rain''" using a by auto
      show "d \<noteq> ''snow''" using a by auto
      show "d \<noteq> ''thunderstorm''" using a by auto
    qed
    then show "kw = ''chill mood''" by (simp only: kw_def option.case)
  qed
  show ?thesis
    unfolding d_def [symmetric]
    by (rule exI [of _ kw]) (intro conjI eq k1 k2 k3 k4 k5 k6 q)
qed

theorem mood_table_and_basic_query_witness:
  "condition_of seoul_clear = Inr (JStr ''Clear'') \<and>
   weather_to_keyword seoul_clear = Inr ''happy pop bright'' \<and>
   snd (generate_basic offline_world NoHeaders seoul_clear 15) =
     [SearchRequest NoHeaders ''happy pop bright'' 15]"
proof -
  have h: "condition_of seoul_clear = Inr (JStr ''Clear'')"
    by (simp add: condition_of_def seoul_clear_def)
  have l: "map lower_char ''Clear'' = ''clear''"
    by (simp add: lower_char_def)
  from mood_table_and_basic_query [OF h, of offline_world NoHeaders 15]
  obtain kw where a: "weather_to_keyword seoul_clear = Inr kw"
    and b: "map lower_char ''Clear'' = ''clear'' \<longrightarrow> kw = ''happy pop bright''"
    and c: "snd (generate_basic offline_world NoHeaders seoul_clear 15) = [SearchRequest NoHeaders kw 15]"
    by (elim exE conjE)
  from b l have k: "kw = ''happy pop bright''" by (rule mp)
  show ?thesis
    using a c h unfolding k by (intro conjI)
qed

section \<open>The application token\<close>

text \<open>
  Claim C2. The token fetch is not fail-soft: an exception of the request, a body that is
  not JSON and a body that is not an object each leave \<open>get_app_token\<close> as an
  exception. Only an object without \<open>access_token\<close> gives the \<open>None\<close> that line 72
  expects.
\<close>

theorem get_app_token_not_fail_soft:
  "get_app_token offline_world = (Inl RequestException, [TokenRequest]) \<and>
   get_app_token (offline_world\<lparr>token_api := Inl JSONDecodeError\<rparr>) = (Inl JSONDecodeError, [TokenRequest]) \<and>
   get_app_token (offline_world\<lparr>token_api := Inr (JArr [])\<rparr>) = (Inl AttributeError, [TokenRequest]) \<and>
   get_app_token (offline_world\<lparr>token_api := Inr (JObj [(''error'', JStr ''invalid_client'')])\<rparr>)
     = (Inr JNull, [TokenRequest])"
  by (simp add: get_app_token_def offline_world_def)

section \<open>The run\<close>

lemma io_emit_simp [simp]: "io_emit ev = (Inr (), [ev])"
  by (simp add: io_emit_def)

lemma run_weather_failed:
  assumes "get_weather w city = (Inr weather, evs)" and "weather_failed weather = Inr True"
  shows "run w hdrs city md track_limit min_bpm user_kw make_playlist =
           (Inr Stopped, evs @ [StError weather_error_text, StStop])"
  by (simp add: run_def assms)

lemma weather_failed_status:
  assumes "dict_get body ''cod'' JNull = Inr cod" and "ne_int cod 200"
  shows "weather_failed body = Inr True"
  using assms by (simp add: weather_failed_def)

text \<open>
  Claim C8. When the weather request raises, gives \<open>null\<close>, or gives a body whose
  \<open>cod\<close> is not 200 (404 among them), the run shows the weather error text, stops, and has
  sent nothing but the weather request: no search request.
\<close>

theorem weather_failure_halts:
  assumes "weather_api w city = Inl e \<or> weather_api w city = Inr JNull \<or>
           (weather_api w city = Inr body \<and> dict_get body ''cod'' JNull = Inr cod \<and> ne_int cod 200)"
  shows "run w hdrs city md track_limit min_bpm user_kw make_playlist =
           (Inr Stopped, [WeatherRequest city, StError weather_error_text, StStop]) \<and>
         (\<forall>h q n. SearchRequest h q n \<notin> set (snd (run w hdrs city md track_limit min_bpm user_kw make_playlist)))"
proof -
  obtain weather where g: "get_weather w city = (Inr weather, [WeatherRequest city])"
    and f: "weather_failed weather = Inr True"
  proof -
    from assms consider
        (exc) "weather_api w city = Inl e"
      | (null) "weather_api w city = Inr JNull"
      | (status) "weather_api w city = Inr body" "dict_get body ''cod'' JNull = Inr cod" "ne_int cod 200"
      by blast
    then show thesis
    proof cases
      case exc
      then have "get_weather w city = (Inr JNull, [WeatherRequest city])"
        by (simp add: get_weather_def)
      moreover have "weather_failed JNull = Inr True"
        by (simp add: weather_failed_def)
      ultimately show thesis by (rule that)
    next
      case null
      then have "get_weather w city = (Inr JNull, [WeatherRequest city])"
        by (simp add: get_weather_def)
      moreover have "weather_failed JNull = Inr True"
        by (simp add: weather_failed_def)
      ultimately show thesis by (rule that)
    next
      case status
      from status(1) have "get_weather w city = (Inr body, [WeatherRequest city])"
        by (simp add: get_weather_def)
      moreover from status(2,3) have "weather_failed body = Inr True"
        by (rule weather_failed_status)
      ultimately show thesis by (rule that)
    qed
  qed
  have r: "run w hdrs city md track_limit min_bpm user_kw make_playlist =
           (Inr Stopped, [WeatherRequest city, StError weather_error_text, StStop])"
    using run_weather_failed [OF g f] by simp
  show ?thesis
    unfolding r by simp
qed

theorem weather_failure_halts_witness:
  "weather_api (sample_world (Inr not_found_body) (JArr []) (JArr [])) ''Atlantis'' = Inr not_found_body \<and>
   dict_get not_found_body ''cod'' JNull = Inr (JStr ''404'') \<and> ne_int (JStr ''404'') 200 \<and>
   run (sample_world (Inr not_found_body) (JArr []) (JArr [])) NoHeaders ''Atlantis'' Tempo 15 110 [] True =
     (Inr Stopped, [WeatherRequest ''Atlantis'', StError weather_error_text, StStop])"
proof -
  let ?w = "sample_world (Inr not_found_body) (JArr []) (JArr [])"
  have a: "weather_api ?w ''Atlantis'' = Inr not_found_body"
    by (simp add: sample_world_def)
  have b: "dict_get not_found_body ''cod'' JNull = Inr (JStr ''404'')"
    by (simp add: not_found_body_def)
  have c: "ne_int (JStr ''404'') 200"
    by simp
  from a b c have h: "weather_api ?w ''Atlantis'' = Inl KeyError \<or> weather_api ?w ''Atlantis'' = Inr JNull \<or>
     (weather_api ?w ''Atlantis'' = Inr not_found_body \<and>
      dict_get not_found_body ''cod'' JNull = Inr (JStr ''404'') \<and> ne_int (JStr ''404'') 200)"
    by (intro disjI2 conjI)
  from weather_failure_halts [OF h, of NoHeaders Tempo 15 110 "[]" True]
  have "run ?w NoHeaders ''Atlantis'' Tempo 15 110 [] True =
     (Inr Stopped, [WeatherRequest ''Atlantis'', StError weather_error_text, StStop])"
    by (rule conjunct1)
  with a b c show ?thesis by (intro conjI)
qed

section \<open>The playlist publisher\<close>

lemma digit_char_digit: "digit_char d \<in> set ''0123456789''"
proof -
  have "d mod 10 < length ''0123456789''" by simp
  then have "''0123456789'' ! (d mod 10) \<in> set ''0123456789''" by (rule nth_mem)
  then show ?thesis by (simp only: digit_char_def)
qed

lemma strftime_shape:
  "\<exists>m1 m2 d1 d2 h1 h2 n1 n2.
     set [m1, m2, d1, d2, h1, h2, n1, n2] \<subseteq> set ''0123456789'' \<and>
     strftime t = [m1, m2, CHR ''/'', d1, d2, CHR '' '', h1, h2, CHR '':'', n1, n2]"
proof -
  define D where "D = set ''0123456789''"
  have dd: "digit_char d \<in> D" for d
    unfolding D_def by (rule digit_char_digit)
  have s: "set [digit_char (month t div 10), digit_char (month t),
              digit_char (day t div 10), digit_char (day t),
              digit_char (hour t div 10), digit_char (hour t),
              digit_char (minute t div 10), digit_char (minute t)] \<subseteq> D"
    by (simp add: dd)
  have e: "strftime t = [digit_char (month t div 10), digit_char (month t), CHR ''/'',
              digit_char (day t div 10), digit_char (day t), CHR '' '',
              digit_char (hour t div 10), digit_char (hour t), CHR '':'',
              digit_char (minute t div 10), digit_char (minute t)]"
    by (simp add: strftime_def two_digits_def)
  from s e show ?thesis unfolding D_def by (intro exI conjI)
qed

text \<open>
  Claim C9. When the Spotify client calls succeed, \<open>create_playlist_auto\<close> creates one
  playlist named "Weather Mix - city (MM/DD HH:MM)" with \<open>public=False\<close>, adds to it the
  given URIs in one call, in the given order, and returns the playlist's
  \<open>external_urls.spotify\<close> link.
\<close>

theorem create_playlist_auto_publishes:
  assumes "spotify_client w = Inr sp"
    and "sp_me w = Inr me"
    and "getitem me ''id'' = Inr user_id"
    and "name = ''Weather Mix - '' @ city @ '' ('' @ strftime (now w) @ '')''"
    and "sp_user_playlist_create w user_id name False playlist_description = Inr playlist"
    and "getitem playlist ''id'' = Inr playlist_id"
    and "sp_playlist_add_items w playlist_id ids = Inr added"
    and "getitem playlist ''external_urls'' = Inr urls"
    and "getitem urls ''spotify'' = Inr link"
  shows "create_playlist_auto w city ids =
           (Inr link,
            [SpotifyClient, SpMe,
             SpPlaylistCreate user_id name False playlist_description,
             SpPlaylistAddItems playlist_id ids]) \<and>
         (\<exists>m1 m2 d1 d2 h1 h2 n1 n2.
            set [m1, m2, d1, d2, h1, h2, n1, n2] \<subseteq> set ''0123456789'' \<and>
            name = ''Weather Mix - '' @ city @ '' ('' @
                   [m1, m2, CHR ''/'', d1, d2, CHR '' '', h1, h2, CHR '':'', n1, n2] @ '')'')"
proof
  show "create_playlist_auto w city ids =
           (Inr link,
            [SpotifyClient, SpMe,
             SpPlaylistCreate user_id name False playlist_description,
             SpPlaylistAddItems playlist_id ids])"
    unfolding create_playlist_auto_def assms(4) [symmetric]
    by (simp add: assms(1,2,3,5,6,7,8,9) io_pure_def)
next
  from strftime_shape [of "now w"]
  obtain m1 m2 d1 d2 h1 h2 n1 n2 where
    s: "set [m1, m2, d1, d2, h1, h2, n1, n2] \<subseteq> set ''0123456789''"
    and e: "strftime (now w) = [m1, m2, CHR ''/'', d1, d2, CHR '' '', h1, h2, CHR '':'', n1, n2]"
    by (elim exE conjE)
  have "name = ''Weather Mix - '' @ city @ '' ('' @
                   [m1, m2, CHR ''/'', d1, d2, CHR '' '', h1, h2, CHR '':'', n1, n2] @ '')''"
    unfolding assms(4) e by (rule refl)
  with s show "\<exists>m1 m2 d1 d2 h1 h2 n1 n2.
            set [m1, m2, d1, d2, h1, h2, n1, n2] \<subseteq> set ''0123456789'' \<and>
            name = ''Weather Mix - '' @ city @ '' ('' @
                   [m1, m2, CHR ''/'', d1, d2, CHR '' '', h1, h2, CHR '':'', n1, n2] @ '')''"
    by (intro exI conjI)
qed

theorem create_playlist_auto_publishes_witness:
  "create_playlist_auto (sample_world (Inr seoul_clear) (JArr []) (JArr [])) ''Seoul''
     [JStr ''spotify:track:a'', JStr ''spotify:track:b''] =
     (Inr (JStr ''https://open.spotify.com/playlist/pl1''),
      [SpotifyClient, SpMe,
       SpPlaylistCreate (JStr ''user1'') ''Weather Mix - Seoul (11/04 09:05)'' False playlist_description,
       SpPlaylistAddItems (JStr ''pl1'') [JStr ''spotify:track:a'', JStr ''spotify:track:b'']])"
proof -
  let ?w = "sample_world (Inr seoul_clear) (JArr []) (JArr [])"
  let ?pl = "JObj [(''id'', JStr ''pl1''),
                   (''external_urls'', JObj [(''spotify'', JStr ''https://open.spotify.com/playlist/pl1'')])]"
  have a1: "spotify_client ?w = Inr ()" by (simp add: sample_world_def)
  have a2: "sp_me ?w = Inr (JObj [(''id'', JStr ''user1'')])" by (simp add: sample_world_def)
  have a3: "getitem (JObj [(''id'', JStr ''user1'')]) ''id'' = Inr (JStr ''user1'')" by simp
  have a4: "''Weather Mix - Seoul (11/04 09:05)'' =
            ''Weather Mix - '' @ ''Seoul'' @ '' ('' @ strftime (now ?w) @ '')''"
    by (simp add: sample_world_def strftime_def two_digits_def digit_char_def)
  have a5: "sp_user_playlist_create ?w (JStr ''user1'') ''Weather Mix - Seoul (11/04 09:05)'' False
              playlist_description = Inr ?pl"
    by (simp add: sample_world_def)
  have a6: "getitem ?pl ''id'' = Inr (JStr ''pl1'')" by simp
  have a7: "sp_playlist_add_items ?w (JStr ''pl1'') [JStr ''spotify:track:a'', JStr ''spotify:track:b'']
              = Inr (JObj [(''snapshot_id'', JStr ''s1'')])"
    by (simp add: sample_world_def)
  have a8: "getitem ?pl ''external_urls'' =
              Inr (JObj [(''spotify'', JStr ''https://open.spotify.com/playlist/pl1'')])"
    by simp
  have a9: "getitem (JObj [(''spotify'', JStr ''https://open.spotify.com/playlist/pl1'')]) ''spotify''
              = Inr (JStr ''https://open.spotify.com/playlist/pl1'')"
    by simp
  from create_playlist_auto_publishes [OF a1 a2 a3 a4 a5 a6 a7 a8 a9]
  show ?thesis by (rule conjunct1)
qed

section \<open>The tempo filter\<close>

lemma succeeds_Inr [simp]: "succeeds (Inr x)"
  by (simp add: succeeds_def)

lemma succeeds_Inl [simp]: "\<not> succeeds (Inl e)"
  by (simp add: succeeds_def)

lemma succeedsE: "succeeds r \<Longrightarrow> (\<And>x. r = Inr x \<Longrightarrow> P) \<Longrightarrow> P"
  by (cases r) simp_all

lemma meets_tempo_key:
  "meets_tempo fmap min_bpm t =
     and_then (key_of t) (\<lambda>k.
       case fmap k of
         None \<Rightarrow> Inr False
       | Some f \<Rightarrow>
           if truthy f
           then and_then (dict_get f ''tempo'' (JNum 0)) (\<lambda>tempo. ge_int tempo min_bpm)
           else Inr False)"
  by (cases "getitem t ''id''") (simp_all add: meets_tempo_def key_of_def)

lemma meets_tempo_True_entry:
  assumes "meets_tempo fmap min_bpm t = Inr True"
  shows "\<exists>k f. key_of t = Inr k \<and> fmap k = Some f \<and> truthy f"
proof -
  from assms obtain k where k: "key_of t = Inr k"
    by (cases "key_of t") (simp_all add: meets_tempo_key)
  with assms obtain f where f: "fmap k = Some f"
    by (cases "fmap k") (simp_all add: meets_tempo_key)
  with assms k have "truthy f"
    by (cases "truthy f") (simp_all add: meets_tempo_key)
  with k f show ?thesis by blast
qed

lemma tempo_loop_filter:
  assumes "\<forall>t\<in>set ts. succeeds (meets_tempo fmap min_bpm t)"
  shows "tempo_loop fmap min_bpm result ts =
           Inr (result @ filter (\<lambda>t. meets_tempo fmap min_bpm t = Inr True) ts)"
  using assms
proof (induction ts arbitrary: result)
  case Nil
  show ?case by simp
next
  case (Cons t ts)
  from Cons.prems have "succeeds (meets_tempo fmap min_bpm t)" by simp
  then obtain b where b: "meets_tempo fmap min_bpm t = Inr b" by (rule succeedsE)
  from Cons.prems have rest: "\<forall>t\<in>set ts. succeeds (meets_tempo fmap min_bpm t)" by simp
  show ?case
    by (cases b) (simp_all add: b Cons.IH [OF rest])
qed

lemma tempo_loop_member:
  assumes "tempo_loop fmap min_bpm result ts = Inr kept" and "x \<in> set kept"
  shows "x \<in> set result \<or> (x \<in> set ts \<and> meets_tempo fmap min_bpm x = Inr True)"
  using assms
proof (induction ts arbitrary: result)
  case Nil
  then show ?case by simp
next
  case (Cons t ts)
  from Cons.prems(1) obtain b where b: "meets_tempo fmap min_bpm t = Inr b"
    and r: "tempo_loop fmap min_bpm (if b then result @ [t] else result) ts = Inr kept"
    by (auto simp: and_then_eq_Inr)
  from Cons.IH [OF r Cons.prems(2)] b show ?case
    by (cases b) auto
qed

lemma build_fmap_source:
  assumes "build_fmap m fs = Inr fmap" and "fmap k = Some f"
  shows "m k = Some f \<or> (f \<in> set fs \<and> truthy f \<and> key_of f = Inr k)"
  using assms
proof (induction fs arbitrary: m)
  case Nil
  then show ?case by simp
next
  case (Cons g gs)
  show ?case
  proof (cases "truthy g")
    case False
    with Cons.prems have "build_fmap m gs = Inr fmap" by simp
    from Cons.IH [OF this Cons.prems(2)] show ?thesis by auto
  next
    case True
    with Cons.prems(1) obtain i j where i: "getitem g ''id'' = Inr i" and j: "hash_key i = Inr j"
      and r: "build_fmap (m(j \<mapsto> g)) gs = Inr fmap"
      by (auto simp: and_then_eq_Inr)
    from i j have kg: "key_of g = Inr j" by (simp add: key_of_def)
    from Cons.IH [OF r Cons.prems(2)] show ?thesis
      using True kg by (auto split: if_splits)
  qed
qed

lemma build_fmap_succeeds:
  assumes "\<forall>f\<in>set fs. \<not> truthy f \<or> succeeds (key_of f)"
  shows "\<exists>fmap. build_fmap m fs = Inr fmap"
  using assms
proof (induction fs arbitrary: m)
  case Nil
  show ?case by simp
next
  case (Cons g gs)
  from Cons.prems have rest: "\<forall>f\<in>set gs. \<not> truthy f \<or> succeeds (key_of f)" by simp
  show ?case
  proof (cases "truthy g")
    case False
    with Cons.IH [OF rest, of m] show ?thesis by simp
  next
    case True
    with Cons.prems have "succeeds (key_of g)" by simp
    then obtain j where "key_of g = Inr j" by (rule succeedsE)
    then obtain i where i: "getitem g ''id'' = Inr i" and j: "hash_key i = Inr j"
      by (auto simp: key_of_def and_then_eq_Inr)
    have e: "build_fmap m (g # gs) = build_fmap (m(j \<mapsto> g)) gs"
      by (simp add: True i j)
    from Cons.IH [OF rest, of "m(j \<mapsto> g)"] show ?thesis
      unfolding e .
  qed
qed

lemma generate_tempo_unfold:
  assumes "weather_to_keyword weather = Inr kw"
    and "search_tracks w hdrs (kw @ '' upbeat dance'') (track_limit * 3) = (Inr base, e1)"
    and "and_then (py_iter base) (comprehend (\<lambda>t. getitem t ''id'')) = Inr ids"
    and "get_audio_features w hdrs ids = (Inr feats, e2)"
    and "and_then (py_iter feats) (build_fmap Map.empty) = Inr fmap"
    and "and_then (py_iter base) (tempo_loop fmap min_bpm []) = Inr result"
  shows "generate_tempo w hdrs weather min_bpm track_limit =
           ((if result = [] then slice_to base track_limit
             else Inr (JArr (py_take track_limit result))), e1 @ e2)"
  unfolding generate_tempo_def
  by (simp add: assms io_pure_def)

lemma py_take_nonneg: "0 \<le> n \<Longrightarrow> py_take n xs = take (nat n) xs"
  by (simp add: py_take_def)

lemma filter_all_True:
  assumes "\<forall>t\<in>set ts. meets_tempo fmap min_bpm t = Inr True"
  shows "filter (\<lambda>t. meets_tempo fmap min_bpm t = Inr True) ts = ts"
  using assms by (simp add: filter_id_conv)

lemma filter_all_False:
  assumes "\<forall>t\<in>set ts. meets_tempo fmap min_bpm t = Inr False"
  shows "filter (\<lambda>t. meets_tempo fmap min_bpm t = Inr True) ts = []"
  using assms by (simp add: filter_empty_conv)

lemma comprehend_ids:
  assumes "\<forall>t\<in>set ts. succeeds (key_of t)"
  shows "\<exists>ids. comprehend (\<lambda>t. getitem t ''id'') ts = Inr ids"
  using assms
proof (induction ts)
  case Nil
  show ?case by simp
next
  case (Cons t ts)
  from Cons.prems have "succeeds (key_of t)" by simp
  then obtain k where "key_of t = Inr k" by (rule succeedsE)
  then obtain i where i: "getitem t ''id'' = Inr i"
    by (auto simp: key_of_def and_then_eq_Inr)
  from Cons.prems have "\<forall>t\<in>set ts. succeeds (key_of t)" by simp
  from Cons.IH [OF this] obtain ids where "comprehend (\<lambda>t. getitem t ''id'') ts = Inr ids" ..
  with i show ?case by simp
qed

lemma meets_tempo_succeeds:
  assumes "succeeds (key_of t)"
    and "\<And>k f. fmap k = Some f \<Longrightarrow> truthy f \<Longrightarrow> tempo_comparable min_bpm f"
  shows "succeeds (meets_tempo fmap min_bpm t)"
proof -
  from assms(1) obtain k where k: "key_of t = Inr k" by (rule succeedsE)
  show ?thesis
  proof (cases "fmap k")
    case None
    with k show ?thesis by (simp add: meets_tempo_key)
  next
    case (Some f)
    show ?thesis
    proof (cases "truthy f")
      case False
      with k Some show ?thesis by (simp add: meets_tempo_key)
    next
      case True
      from assms(2) [OF Some True] have "tempo_comparable min_bpm f" .
      with k Some True show ?thesis by (simp add: meets_tempo_key tempo_comparable_def)
    qed
  qed
qed

lemma fst_io_bind_InrE:
  assumes "fst (io_bind m f) = Inr y"
  obtains x where "fst m = Inr x" and "fst (f x) = Inr y"
proof (cases m)
  case (Pair r evs)
  show ?thesis
  proof (cases r)
    case (Inl e)
    with Pair assms show ?thesis by simp
  next
    case (Inr x)
    with Pair assms have "fst (f x) = Inr y" by simp
    moreover from Pair Inr have "fst m = Inr x" by simp
    ultimately show ?thesis using that by blast
  qed
qed

lemma length_py_take: "0 \<le> n \<Longrightarrow> int (length (py_take n xs)) \<le> n"
  by (simp add: py_take_def)

lemma slice_to_JArr:
  assumes "slice_to base n = Inr (JArr tracks)"
  shows "\<exists>xs. tracks = py_take n xs"
  using assms by (cases base) auto

lemma generate_tempo_result:
  assumes "fst (generate_tempo w hdrs weather min_bpm track_limit) = Inr (JArr tracks)"
  shows "\<exists>xs. tracks = py_take track_limit xs"
proof -
  from assms obtain base result where
    r: "fst (if result = [] then io_pure (slice_to base track_limit)
             else io_pure (Inr (JArr (py_take track_limit result)))) = Inr (JArr tracks)"
    unfolding generate_tempo_def by (elim fst_io_bind_InrE)
  show ?thesis
  proof (cases "result = []")
    case True
    with r have "slice_to base track_limit = Inr (JArr tracks)" by (simp add: io_pure_def)
    then show ?thesis by (rule slice_to_JArr)
  next
    case False
    with r have "tracks = py_take track_limit result" by (simp add: io_pure_def)
    then show ?thesis ..
  qed
qed

lemma seoul_keyword: "weather_to_keyword seoul_clear = Inr ''happy pop bright''"
  by (simp add: weather_to_keyword_def seoul_clear_def mapping_def lower_char_def)

lemma tempo_world_search:
  "search_tracks (tempo_world feats) hdrs q n = (Inr (JArr pool_ab), [SearchRequest hdrs q n])"
  by (simp add: search_tracks_def tempo_world_def sample_world_def)

lemma sample_track_id: "getitem (sample_track i) ''id'' = Inr (JStr i)"
  by (simp add: sample_track_def)

lemma sample_track_key: "key_of (sample_track i) = Inr (KStr i)"
  by (simp add: key_of_def sample_track_id)

lemma sample_feature_id: "getitem (sample_feature i bpm) ''id'' = Inr (JStr i)"
  by (simp add: sample_feature_def)

lemma sample_feature_key: "key_of (sample_feature i bpm) = Inr (KStr i)"
  by (simp add: key_of_def sample_feature_id)

lemma sample_feature_truthy: "truthy (sample_feature i bpm)"
  by (simp add: sample_feature_def)

lemma sample_feature_tempo: "dict_get (sample_feature i bpm) ''tempo'' (JNum 0) = Inr (JNum bpm)"
  by (simp add: sample_feature_def)

lemma pool_ab_ids: "comprehend (\<lambda>t. getitem t ''id'') pool_ab = Inr [JStr ''a'', JStr ''b'']"
  by (simp add: pool_ab_def sample_track_id)

lemma tempo_world_features:
  "get_audio_features (tempo_world feats) hdrs [JStr ''a'', JStr ''b''] =
     (Inr (JArr feats), [FeaturesRequest hdrs ''a,b''])"
  by (simp add: get_audio_features_def tempo_world_def sample_world_def)

lemma key_neq: "KStr ''a'' \<noteq> KStr ''b''" "KStr ''b'' \<noteq> KStr ''a''"
  by simp_all

text \<open>
  Claim C1 as stated fails through the fallback of lines 112-113: with candidates a and b,
  a feature record of 90 BPM for a and \<open>null\<close> for b, and a threshold of 110, nothing passes
  the test and the result is the pool itself, b included, though b has no feature record.
\<close>

theorem tempo_filter_includes_unfeatured_counterexample:
  "fst (generate_tempo (tempo_world feats_slow) NoHeaders seoul_clear 110 5) =
     Inr (JArr [sample_track ''a'', sample_track ''b'']) \<and>
   entries_for feats_slow (sample_track ''b'') = []"
proof -
  have e: "entries_for feats_slow (sample_track ''b'') = []"
    by (simp add: entries_for_def feats_slow_def sample_feature_key sample_track_key)
  let ?fmap = "[KStr ''a'' \<mapsto> sample_feature ''a'' 90]"
  have a5: "and_then (py_iter (JArr feats_slow)) (build_fmap Map.empty) = Inr ?fmap"
    by (simp add: feats_slow_def sample_feature_truthy sample_feature_id)
  have ma: "meets_tempo ?fmap 110 (sample_track ''a'') = Inr False"
    by (simp add: meets_tempo_key sample_track_key sample_feature_truthy sample_feature_tempo)
  have mb: "meets_tempo ?fmap 110 (sample_track ''b'') = Inr False"
    by (simp add: meets_tempo_key sample_track_key)
  have a3: "and_then (py_iter (JArr pool_ab)) (comprehend (\<lambda>t. getitem t ''id'')) = Inr [JStr ''a'', JStr ''b'']"
    by (simp add: pool_ab_ids)
  have a6: "and_then (py_iter (JArr pool_ab)) (tempo_loop ?fmap 110 []) = Inr []"
    by (simp add: pool_ab_def ma mb)
  have "generate_tempo (tempo_world feats_slow) NoHeaders seoul_clear 110 5 =
          ((if ([]::json list) = [] then slice_to (JArr pool_ab) 5
            else Inr (JArr (py_take 5 []))),
           [SearchRequest NoHeaders (''happy pop bright'' @ '' upbeat dance'') (5 * 3)] @
           [FeaturesRequest NoHeaders ''a,b''])"
    by (rule generate_tempo_unfold
          [OF seoul_keyword tempo_world_search a3 tempo_world_features a5 a6])
  then have "fst (generate_tempo (tempo_world feats_slow) NoHeaders seoul_clear 110 5) =
     Inr (JArr [sample_track ''a'', sample_track ''b''])"
    by (simp add: py_take_def pool_ab_def)
  with e show ?thesis by (intro conjI)
qed

text \<open>
  Claim C1, as amended. On candidates with hashable ids and a feature list whose entries are
  either falsy (\<open>null\<close> among them) or records with a hashable id and a comparable tempo,
  \<open>generate_tempo\<close> raises nothing: the falsy entries are skipped. The list kept by the
  tempo test never holds a candidate without a feature record of its id. The result is the
  kept list cut to \<open>track_limit\<close>, or, when nothing is kept, the candidate pool cut to
  \<open>track_limit\<close>, whatever the feature records of those candidates.
\<close>

theorem tempo_filter_skips_missing_features:
  assumes "weather_to_keyword weather = Inr kw"
    and "search_tracks w hdrs (kw @ '' upbeat dance'') (track_limit * 3) = (Inr (JArr ts), e1)"
    and "\<forall>t\<in>set ts. succeeds (key_of t)"
    and "comprehend (\<lambda>t. getitem t ''id'') ts = Inr ids"
    and "get_audio_features w hdrs ids = (Inr (JArr fs), e2)"
    and "\<forall>f\<in>set fs. entry_ok min_bpm f"
  shows "\<exists>fmap kept.
           build_fmap Map.empty fs = Inr fmap \<and>
           tempo_loop fmap min_bpm [] ts = Inr kept \<and>
           (\<forall>t\<in>set kept. entries_for fs t \<noteq> []) \<and>
           generate_tempo w hdrs weather min_bpm track_limit =
             (Inr (JArr (py_take track_limit (if kept = [] then ts else kept))), e1 @ e2)"
proof -
  from assms(6) have "\<forall>f\<in>set fs. \<not> truthy f \<or> succeeds (key_of f)"
    by (auto simp: entry_ok_def)
  from build_fmap_succeeds [OF this] obtain fmap where fm: "build_fmap Map.empty fs = Inr fmap" ..
  have src: "f \<in> set fs \<and> truthy f \<and> key_of f = Inr k" if "fmap k = Some f" for k f
    using build_fmap_source [OF fm that] by simp
  have cmp: "tempo_comparable min_bpm f" if "fmap k = Some f" "truthy f" for k f
  proof -
    from src [OF that(1)] have "f \<in> set fs" by simp
    with assms(6) have "entry_ok min_bpm f" by simp
    with that(2) show ?thesis by (simp add: entry_ok_def)
  qed
  have ok: "\<forall>t\<in>set ts. succeeds (meets_tempo fmap min_bpm t)"
  proof
    fix t assume "t \<in> set ts"
    with assms(3) have "succeeds (key_of t)" by simp
    then show "succeeds (meets_tempo fmap min_bpm t)"
      using cmp by (rule meets_tempo_succeeds)
  qed
  define kept where "kept = filter (\<lambda>t. meets_tempo fmap min_bpm t = Inr True) ts"
  have l: "tempo_loop fmap min_bpm [] ts = Inr kept"
    by (simp add: tempo_loop_filter [OF ok] kept_def)
  have ent: "\<forall>t\<in>set kept. entries_for fs t \<noteq> []"
  proof
    fix t assume "t \<in> set kept"
    then have "meets_tempo fmap min_bpm t = Inr True" by (simp add: kept_def)
    from meets_tempo_True_entry [OF this] obtain k f
      where k: "key_of t = Inr k" and f: "fmap k = Some f" by blast
    from src [OF f] k have "f \<in> set (entries_for fs t)"
      by (simp add: entries_for_def)
    then show "entries_for fs t \<noteq> []" by auto
  qed
  have a3: "and_then (py_iter (JArr ts)) (comprehend (\<lambda>t. getitem t ''id'')) = Inr ids"
    by (simp add: assms(4))
  have a5: "and_then (py_iter (JArr fs)) (build_fmap Map.empty) = Inr fmap"
    by (simp add: fm)
  have a6: "and_then (py_iter (JArr ts)) (tempo_loop fmap min_bpm []) = Inr kept"
    by (simp add: l)
  have "generate_tempo w hdrs weather min_bpm track_limit =
           ((if kept = [] then slice_to (JArr ts) track_limit
             else Inr (JArr (py_take track_limit kept))), e1 @ e2)"
    by (rule generate_tempo_unfold [OF assms(1) assms(2) a3 assms(5) a5 a6])
  then have g: "generate_tempo w hdrs weather min_bpm track_limit =
             (Inr (JArr (py_take track_limit (if kept = [] then ts else kept))), e1 @ e2)"
    by simp
  from fm l ent g show ?thesis by blast
qed

theorem tempo_filter_skips_missing_features_witness:
  "build_fmap Map.empty feats_sparse = Inr [KStr ''b'' \<mapsto> sample_feature ''b'' 128] \<and>
   tempo_loop [KStr ''b'' \<mapsto> sample_feature ''b'' 128] 110 [] pool_ab = Inr [sample_track ''b''] \<and>
   entries_for feats_sparse (sample_track ''b'') \<noteq> [] \<and>
   generate_tempo (tempo_world feats_sparse) NoHeaders seoul_clear 110 5 =
     (Inr (JArr [sample_track ''b'']),
      [SearchRequest NoHeaders (''happy pop bright'' @ '' upbeat dance'') (5 * 3)] @
      [FeaturesRequest NoHeaders ''a,b''])"
proof -
  let ?fmap = "[KStr ''b'' \<mapsto> sample_feature ''b'' 128]"
  have a3: "\<forall>t\<in>set pool_ab. succeeds (key_of t)"
    by (simp add: pool_ab_def sample_track_key)
  have a6: "\<forall>f\<in>set feats_sparse. entry_ok 110 f"
    by (simp add: feats_sparse_def entry_ok_def tempo_comparable_def
                  sample_feature_key sample_feature_tempo)
  from tempo_filter_skips_missing_features
         [where hdrs = NoHeaders and track_limit = 5,
          OF seoul_keyword tempo_world_search a3 pool_ab_ids tempo_world_features a6]
  obtain fmap kept where
    fm: "build_fmap Map.empty feats_sparse = Inr fmap"
    and l: "tempo_loop fmap 110 [] pool_ab = Inr kept"
    and ent: "\<forall>t\<in>set kept. entries_for feats_sparse t \<noteq> []"
    and g: "generate_tempo (tempo_world feats_sparse) NoHeaders seoul_clear 110 5 =
       (Inr (JArr (py_take 5 (if kept = [] then pool_ab else kept))),
        [SearchRequest NoHeaders (''happy pop bright'' @ '' upbeat dance'') (5 * 3)] @
        [FeaturesRequest NoHeaders ''a,b''])"
    by (elim exE conjE)
  have fm': "build_fmap Map.empty feats_sparse = Inr ?fmap"
    by (simp add: feats_sparse_def sample_feature_truthy sample_feature_id)
  with fm have f: "fmap = ?fmap" by simp
  have ma: "meets_tempo ?fmap 110 (sample_track ''a'') = Inr False"
    by (simp add: meets_tempo_key sample_track_key)
  have mb: "meets_tempo ?fmap 110 (sample_track ''b'') = Inr True"
    by (simp add: meets_tempo_key sample_track_key sample_feature_truthy sample_feature_tempo)
  have l': "tempo_loop ?fmap 110 [] pool_ab = Inr [sample_track ''b'']"
    by (simp add: pool_ab_def ma mb)
  with l have k: "kept = [sample_track ''b'']" unfolding f by simp
  from ent have e: "entries_for feats_sparse (sample_track ''b'') \<noteq> []"
    unfolding k by simp
  from g have g': "generate_tempo (tempo_world feats_sparse) NoHeaders seoul_clear 110 5 =
     (Inr (JArr [sample_track ''b'']),
      [SearchRequest NoHeaders (''happy pop bright'' @ '' upbeat dance'') (5 * 3)] @
      [FeaturesRequest NoHeaders ''a,b''])"
    unfolding k by (simp add: py_take_def)
  from fm' l' e g' show ?thesis by (intro conjI)
qed

text \<open>
  Claim C4. In Tempo mode, when the candidate pool is not empty, no step raises and
  \<open>track_limit\<close> is positive, the result is not empty; when no candidate passes the tempo
  test it is the first \<open>track_limit\<close> entries of the pool.
\<close>

theorem tempo_fallback_nonempty:
  assumes "weather_to_keyword weather = Inr kw"
    and "search_tracks w hdrs (kw @ '' upbeat dance'') (track_limit * 3) = (Inr (JArr ts), e1)"
    and "comprehend (\<lambda>t. getitem t ''id'') ts = Inr ids"
    and "get_audio_features w hdrs ids = (Inr feats, e2)"
    and "and_then (py_iter feats) (build_fmap Map.empty) = Inr fmap"
    and "\<forall>t\<in>set ts. succeeds (meets_tempo fmap min_bpm t)"
    and "ts \<noteq> []"
    and "0 < track_limit"
  shows "\<exists>rs. generate_tempo w hdrs weather min_bpm track_limit = (Inr (JArr rs), e1 @ e2) \<and>
              rs \<noteq> [] \<and>
              ((\<forall>t\<in>set ts. meets_tempo fmap min_bpm t = Inr False) \<longrightarrow>
                 rs = take (nat track_limit) ts)"
proof -
  define kept where "kept = filter (\<lambda>t. meets_tempo fmap min_bpm t = Inr True) ts"
  define rs where "rs = take (nat track_limit) (if kept = [] then ts else kept)"
  have l: "tempo_loop fmap min_bpm [] ts = Inr kept"
    by (simp add: tempo_loop_filter [OF assms(6)] kept_def)
  have a3: "and_then (py_iter (JArr ts)) (comprehend (\<lambda>t. getitem t ''id'')) = Inr ids"
    by (simp add: assms(3))
  have a6: "and_then (py_iter (JArr ts)) (tempo_loop fmap min_bpm []) = Inr kept"
    by (simp add: l)
  have nn: "0 \<le> track_limit" using assms(8) by simp
  have "generate_tempo w hdrs weather min_bpm track_limit =
           ((if kept = [] then slice_to (JArr ts) track_limit
             else Inr (JArr (py_take track_limit kept))), e1 @ e2)"
    by (rule generate_tempo_unfold [OF assms(1) assms(2) a3 assms(4) assms(5) a6])
  then have g: "generate_tempo w hdrs weather min_bpm track_limit = (Inr (JArr rs), e1 @ e2)"
    by (simp add: py_take_nonneg [OF nn] rs_def)
  have pos: "0 < nat track_limit" using assms(8) by simp
  have ne: "rs \<noteq> []"
    using assms(7) pos by (simp add: rs_def)
  have fb: "(\<forall>t\<in>set ts. meets_tempo fmap min_bpm t = Inr False) \<longrightarrow> rs = take (nat track_limit) ts"
  proof
    assume "\<forall>t\<in>set ts. meets_tempo fmap min_bpm t = Inr False"
    then have "kept = []" unfolding kept_def by (rule filter_all_False)
    then show "rs = take (nat track_limit) ts" by (simp add: rs_def)
  qed
  from g ne fb show ?thesis by blast
qed

theorem tempo_fallback_nonempty_witness:
  "\<exists>rs. generate_tempo (tempo_world feats_slow) NoHeaders seoul_clear 110 1 =
          (Inr (JArr rs),
           [SearchRequest NoHeaders (''happy pop bright'' @ '' upbeat dance'') (1 * 3)] @
           [FeaturesRequest NoHeaders ''a,b'']) \<and>
        rs \<noteq> [] \<and> rs = take (nat 1) pool_ab"
proof -
  let ?fmap = "[KStr ''a'' \<mapsto> sample_feature ''a'' 90]"
  have a5: "and_then (py_iter (JArr feats_slow)) (build_fmap Map.empty) = Inr ?fmap"
    by (simp add: feats_slow_def sample_feature_truthy sample_feature_id)
  have ma: "meets_tempo ?fmap 110 (sample_track ''a'') = Inr False"
    by (simp add: meets_tempo_key sample_track_key sample_feature_truthy sample_feature_tempo)
  have mb: "meets_tempo ?fmap 110 (sample_track ''b'') = Inr False"
    by (simp add: meets_tempo_key sample_track_key)
  have none: "\<forall>t\<in>set pool_ab. meets_tempo ?fmap 110 t = Inr False"
    by (simp add: pool_ab_def ma mb)
  have a6: "\<forall>t\<in>set pool_ab. succeeds (meets_tempo ?fmap 110 t)"
    by (simp add: pool_ab_def ma mb)
  have a7: "pool_ab \<noteq> []" by (simp add: pool_ab_def)
  have a8: "(0::int) < 1" by simp
  from tempo_fallback_nonempty
         [where hdrs = NoHeaders,
          OF seoul_keyword tempo_world_search pool_ab_ids tempo_world_features a5 a6 a7 a8]
  obtain rs where
    g: "generate_tempo (tempo_world feats_slow) NoHeaders seoul_clear 110 1 =
          (Inr (JArr rs),
           [SearchRequest NoHeaders (''happy pop bright'' @ '' upbeat dance'') (1 * 3)] @
           [FeaturesRequest NoHeaders ''a,b''])"
    and ne: "rs \<noteq> []"
    and fb: "(\<forall>t\<in>set pool_ab. meets_tempo ?fmap 110 t = Inr False) \<longrightarrow> rs = take (nat 1) pool_ab"
    by (elim exE conjE)
  from fb none have "rs = take (nat 1) pool_ab" by (rule mp)
  with g ne show ?thesis by (intro exI conjI)
qed

lemma six_world_search:
  "search_tracks six_world hdrs q n = (Inr (JArr pool_six), [SearchRequest hdrs q n])"
  by (simp add: search_tracks_def six_world_def sample_world_def)

lemma six_world_search_api:
  "search_api six_world hdrs q n = Inr (JObj [(''tracks'', JObj [(''items'', JArr pool_six)])])"
  by (simp add: six_world_def sample_world_def)

lemma pool_six_ids:
  "comprehend (\<lambda>t. getitem t ''id'') pool_six =
     Inr [JStr ''a'', JStr ''b'', JStr ''c'', JStr ''d'', JStr ''e'', JStr ''f'']"
  by (simp add: pool_six_def sample_track_id)

lemma six_world_features:
  "get_audio_features six_world hdrs
     [JStr ''a'', JStr ''b'', JStr ''c'', JStr ''d'', JStr ''e'', JStr ''f''] =
     (Inr (JArr []), [FeaturesRequest hdrs ''a,b,c,d,e,f''])"
  by (simp add: get_audio_features_def six_world_def sample_world_def)

lemma meets_tempo_empty: "meets_tempo Map.empty min_bpm (sample_track i) = Inr False"
  by (simp add: meets_tempo_key sample_track_key)

lemma six_world_tempo:
  "generate_tempo six_world NoHeaders seoul_clear 110 5 =
     (Inr (JArr (py_take 5 pool_six)),
      [SearchRequest NoHeaders (''happy pop bright'' @ '' upbeat dance'') (5 * 3)] @
      [FeaturesRequest NoHeaders ''a,b,c,d,e,f''])"
proof -
  have a3: "and_then (py_iter (JArr pool_six)) (comprehend (\<lambda>t. getitem t ''id'')) =
              Inr [JStr ''a'', JStr ''b'', JStr ''c'', JStr ''d'', JStr ''e'', JStr ''f'']"
    by (simp add: pool_six_ids)
  have a5: "and_then (py_iter (JArr [])) (build_fmap Map.empty) = Inr Map.empty"
    by simp
  have a6: "and_then (py_iter (JArr pool_six)) (tempo_loop Map.empty 110 []) = Inr []"
    by (simp add: pool_six_def meets_tempo_empty)
  have "generate_tempo six_world NoHeaders seoul_clear 110 5 =
          ((if ([]::json list) = [] then slice_to (JArr pool_six) 5
            else Inr (JArr (py_take 5 []))),
           [SearchRequest NoHeaders (''happy pop bright'' @ '' upbeat dance'') (5 * 3)] @
           [FeaturesRequest NoHeaders ''a,b,c,d,e,f''])"
    by (rule generate_tempo_unfold
          [OF seoul_keyword six_world_search a3 six_world_features a5 a6])
  then show ?thesis by simp
qed

lemma search_tracks_items:
  assumes "search_api w hdrs q n = Inr body"
    and "getitem body ''tracks'' = Inr found"
    and "getitem found ''items'' = Inr items"
  shows "search_tracks w hdrs q n = (Inr items, [SearchRequest hdrs q n])"
  by (simp add: search_tracks_def assms)

text \<open>
  Claim C5 as stated fails in Basic mode: line 96 returns the list of the search as it is,
  so when the catalog answers a search for 5 tracks with 6, the page gets 6.
\<close>

theorem basic_mode_exceeds_limit_counterexample:
  "fst (generate_basic six_world NoHeaders seoul_clear 5) = Inr (JArr pool_six) \<and>
   \<not> int (length pool_six) \<le> 5"
proof -
  have g: "fst (generate_basic six_world NoHeaders seoul_clear 5) = Inr (JArr pool_six)"
    by (simp add: generate_basic_def seoul_keyword six_world_search)
  have l: "\<not> int (length pool_six) \<le> 5"
    by (simp add: pool_six_def)
  from g l show ?thesis by (intro conjI)
qed

text \<open>
  Claim C5, as amended. For \<open>track_limit\<close> from 5 to 30, a list returned by Tempo mode
  has at most \<open>track_limit\<close> entries, whatever the catalog answers. Basic and Custom mode
  send one search with \<open>track_limit\<close> as its limit and return the \<open>tracks.items\<close> of the
  answer unchanged, so their list is as long as the catalog makes it.
\<close>

theorem track_limit_by_mode:
  assumes "5 \<le> track_limit" and "track_limit \<le> 30"
  shows "(\<forall>tracks. fst (generate_tempo w hdrs weather min_bpm track_limit) = Inr (JArr tracks) \<longrightarrow>
            int (length tracks) \<le> track_limit) \<and>
         (\<forall>kw body found items.
            weather_to_keyword weather = Inr kw \<and>
            search_api w hdrs kw track_limit = Inr body \<and>
            getitem body ''tracks'' = Inr found \<and> getitem found ''items'' = Inr items \<longrightarrow>
            generate_basic w hdrs weather track_limit =
              (Inr items, [SearchRequest hdrs kw track_limit])) \<and>
         (\<forall>kw body found items.
            weather_to_keyword weather = Inr kw \<and>
            search_api w hdrs (kw @ '' '' @ user_kw) track_limit = Inr body \<and>
            getitem body ''tracks'' = Inr found \<and> getitem found ''items'' = Inr items \<longrightarrow>
            generate_custom w hdrs weather user_kw track_limit =
              (Inr items, [SearchRequest hdrs (kw @ '' '' @ user_kw) track_limit]))"
proof (intro conjI allI impI)
  fix tracks
  assume "fst (generate_tempo w hdrs weather min_bpm track_limit) = Inr (JArr tracks)"
  from generate_tempo_result [OF this] obtain xs where "tracks = py_take track_limit xs" ..
  moreover have "0 \<le> track_limit" using assms(1) by simp
  ultimately show "int (length tracks) \<le> track_limit" by (simp add: length_py_take)
next
  fix kw body found items
  assume a: "weather_to_keyword weather = Inr kw \<and>
            search_api w hdrs kw track_limit = Inr body \<and>
            getitem body ''tracks'' = Inr found \<and> getitem found ''items'' = Inr items"
  then have k: "weather_to_keyword weather = Inr kw"
    and s: "search_tracks w hdrs kw track_limit = (Inr items, [SearchRequest hdrs kw track_limit])"
    by (auto intro: search_tracks_items)
  show "generate_basic w hdrs weather track_limit = (Inr items, [SearchRequest hdrs kw track_limit])"
    unfolding generate_basic_def k by (simp only: io_bind_pure_Inr s)
next
  fix kw body found items
  assume a: "weather_to_keyword weather = Inr kw \<and>
            search_api w hdrs (kw @ '' '' @ user_kw) track_limit = Inr body \<and>
            getitem body ''tracks'' = Inr found \<and> getitem found ''items'' = Inr items"
  then have k: "weather_to_keyword weather = Inr kw"
    and s: "search_tracks w hdrs (kw @ '' '' @ user_kw) track_limit =
              (Inr items, [SearchRequest hdrs (kw @ '' '' @ user_kw) track_limit])"
    by (auto intro: search_tracks_items)
  show "generate_custom w hdrs weather user_kw track_limit =
          (Inr items, [SearchRequest hdrs (kw @ '' '' @ user_kw) track_limit])"
    unfolding generate_custom_def k by (simp only: io_bind_pure_Inr s)
qed

theorem track_limit_by_mode_witness:
  "fst (generate_tempo six_world NoHeaders seoul_clear 110 5) = Inr (JArr (py_take 5 pool_six)) \<and>
   int (length (py_take 5 pool_six)) \<le> 5 \<and>
   generate_basic six_world NoHeaders seoul_clear 5 =
     (Inr (JArr pool_six), [SearchRequest NoHeaders ''happy pop bright'' 5])"
proof -
  have a1: "(5::int) \<le> 5" by simp
  have a2: "(5::int) \<le> 30" by simp
  note t = track_limit_by_mode
             [OF a1 a2, where w = six_world and hdrs = NoHeaders and weather = seoul_clear
                and min_bpm = 110 and user_kw = "[]"]
  have g: "fst (generate_tempo six_world NoHeaders seoul_clear 110 5) = Inr (JArr (py_take 5 pool_six))"
    by (simp add: six_world_tempo)
  from t have "\<forall>tracks. fst (generate_tempo six_world NoHeaders seoul_clear 110 5) = Inr (JArr tracks) \<longrightarrow>
            int (length tracks) \<le> 5"
    by (rule conjunct1)
  then have "fst (generate_tempo six_world NoHeaders seoul_clear 110 5) = Inr (JArr (py_take 5 pool_six)) \<longrightarrow>
            int (length (py_take 5 pool_six)) \<le> 5"
    by (rule spec)
  from this g have b: "int (length (py_take 5 pool_six)) \<le> 5" by (rule mp)
  from t have "\<forall>kw body found items.
            weather_to_keyword seoul_clear = Inr kw \<and>
            search_api six_world NoHeaders kw 5 = Inr body \<and>
            getitem body ''tracks'' = Inr found \<and> getitem found ''items'' = Inr items \<longrightarrow>
            generate_basic six_world NoHeaders seoul_clear 5 =
              (Inr items, [SearchRequest NoHeaders kw 5])"
    by (elim conjE)
  then have "weather_to_keyword seoul_clear = Inr ''happy pop bright'' \<and>
            search_api six_world NoHeaders ''happy pop bright'' 5 =
              Inr (JObj [(''tracks'', JObj [(''items'', JArr pool_six)])]) \<and>
            getitem (JObj [(''tracks'', JObj [(''items'', JArr pool_six)])]) ''tracks'' =
              Inr (JObj [(''items'', JArr pool_six)]) \<and>
            getitem (JObj [(''items'', JArr pool_six)]) ''items'' = Inr (JArr pool_six) \<longrightarrow>
            generate_basic six_world NoHeaders seoul_clear 5 =
              (Inr (JArr pool_six), [SearchRequest NoHeaders ''happy pop bright'' 5])"
    by (elim allE)
  moreover have "weather_to_keyword seoul_clear = Inr ''happy pop bright'' \<and>
            search_api six_world NoHeaders ''happy pop bright'' 5 =
              Inr (JObj [(''tracks'', JObj [(''items'', JArr pool_six)])]) \<and>
            getitem (JObj [(''tracks'', JObj [(''items'', JArr pool_six)])]) ''tracks'' =
              Inr (JObj [(''items'', JArr pool_six)]) \<and>
            getitem (JObj [(''items'', JArr pool_six)]) ''items'' = Inr (JArr pool_six)"
    by (simp add: seoul_keyword six_world_search_api)
  ultimately have c: "generate_basic six_world NoHeaders seoul_clear 5 =
              (Inr (JArr pool_six), [SearchRequest NoHeaders ''happy pop bright'' 5])"
    by (rule mp)
  from g b c show ?thesis by (intro conjI)
qed

text \<open>
  Claim C7. In Tempo mode, when every candidate passes the tempo test, the result is the
  pool in its original order, cut to its first \<open>track_limit\<close> entries.
\<close>

theorem tempo_all_meet_keeps_order:
  assumes "weather_to_keyword weather = Inr kw"
    and "search_tracks w hdrs (kw @ '' upbeat dance'') (track_limit * 3) = (Inr (JArr ts), e1)"
    and "comprehend (\<lambda>t. getitem t ''id'') ts = Inr ids"
    and "get_audio_features w hdrs ids = (Inr feats, e2)"
    and "and_then (py_iter feats) (build_fmap Map.empty) = Inr fmap"
    and "\<forall>t\<in>set ts. meets_tempo fmap min_bpm t = Inr True"
    and "0 \<le> track_limit"
  shows "generate_tempo w hdrs weather min_bpm track_limit =
           (Inr (JArr (take (nat track_limit) ts)), e1 @ e2)"
proof -
  from assms(6) have s: "\<forall>t\<in>set ts. succeeds (meets_tempo fmap min_bpm t)" by simp
  have l: "tempo_loop fmap min_bpm [] ts = Inr ts"
    by (simp add: tempo_loop_filter [OF s] filter_all_True [OF assms(6)])
  have a3: "and_then (py_iter (JArr ts)) (comprehend (\<lambda>t. getitem t ''id'')) = Inr ids"
    by (simp add: assms(3))
  have a6: "and_then (py_iter (JArr ts)) (tempo_loop fmap min_bpm []) = Inr ts"
    by (simp add: l)
  have "generate_tempo w hdrs weather min_bpm track_limit =
           ((if ts = [] then slice_to (JArr ts) track_limit
             else Inr (JArr (py_take track_limit ts))), e1 @ e2)"
    by (rule generate_tempo_unfold [OF assms(1) assms(2) a3 assms(4) assms(5) a6])
  then show ?thesis
    by (simp add: py_take_nonneg [OF assms(7)])
qed

theorem tempo_all_meet_keeps_order_witness:
  "generate_tempo (tempo_world feats_fast) NoHeaders seoul_clear 110 1 =
     (Inr (JArr (take (nat 1) pool_ab)),
      [SearchRequest NoHeaders (''happy pop bright'' @ '' upbeat dance'') (1 * 3)] @
      [FeaturesRequest NoHeaders ''a,b''])"
proof -
  let ?fmap = "[KStr ''a'' \<mapsto> sample_feature ''a'' 120, KStr ''b'' \<mapsto> sample_feature ''b'' 128]"
  have a5: "and_then (py_iter (JArr feats_fast)) (build_fmap Map.empty) = Inr ?fmap"
    by (simp add: feats_fast_def sample_feature_truthy sample_feature_id)
  have ma: "meets_tempo ?fmap 110 (sample_track ''a'') = Inr True"
    by (simp add: meets_tempo_key sample_track_key sample_feature_truthy sample_feature_tempo)
  have mb: "meets_tempo ?fmap 110 (sample_track ''b'') = Inr True"
    by (simp add: meets_tempo_key sample_track_key sample_feature_truthy sample_feature_tempo)
  have a6: "\<forall>t\<in>set pool_ab. meets_tempo ?fmap 110 t = Inr True"
    by (simp add: pool_ab_def ma mb)
  have a7: "(0::int) \<le> 1" by simp
  show ?thesis
    by (rule tempo_all_meet_keeps_order
          [OF seoul_keyword tempo_world_search pool_ab_ids tempo_world_features a5 a6 a7])
qed

text \<open>
  Claim C10. A candidate whose feature record exists but has no \<open>tempo\<close> field is given the
  tempo 0: for every \<open>min_bpm\<close> from 60 to 180 it fails the tempo test and is in no list the
  loop keeps.
\<close>

theorem missing_tempo_excluded:
  assumes "key_of t = Inr k"
    and "fmap k = Some (JObj kvs)"
    and "map_of kvs ''tempo'' = None"
    and "60 \<le> min_bpm" and "min_bpm \<le> 180"
  shows "dict_get (JObj kvs) ''tempo'' (JNum 0) = Inr (JNum 0) \<and>
         meets_tempo fmap min_bpm t = Inr False \<and>
         (\<forall>ts kept. tempo_loop fmap min_bpm [] ts = Inr kept \<longrightarrow> t \<notin> set kept)"
proof -
  have d: "dict_get (JObj kvs) ''tempo'' (JNum 0) = Inr (JNum 0)"
    by (simp add: assms(3))
  have "\<not> (of_int min_bpm \<le> (0::rat))" using assms(4) by simp
  then have m: "meets_tempo fmap min_bpm t = Inr False"
    by (simp add: meets_tempo_key assms(1,2,3))
  have "t \<notin> set kept" if "tempo_loop fmap min_bpm [] ts = Inr kept" for ts kept
  proof
    assume "t \<in> set kept"
    from tempo_loop_member [OF that this] m show False by simp
  qed
  with d m show ?thesis by blast
qed

theorem missing_tempo_excluded_witness:
  "key_of (sample_track ''a'') = Inr (KStr ''a'') \<and>
   [KStr ''a'' \<mapsto> JObj [(''id'', JStr ''a'')]] (KStr ''a'') = Some (JObj [(''id'', JStr ''a'')]) \<and>
   map_of [(''id'', JStr ''a'')] ''tempo'' = None \<and>
   meets_tempo [KStr ''a'' \<mapsto> JObj [(''id'', JStr ''a'')]] 110 (sample_track ''a'') = Inr False"
proof -
  have a1: "key_of (sample_track ''a'') = Inr (KStr ''a'')" by (rule sample_track_key)
  have a2: "[KStr ''a'' \<mapsto> JObj [(''id'', JStr ''a'')]] (KStr ''a'') = Some (JObj [(''id'', JStr ''a'')])"
    by simp
  have a3: "map_of [(''id'', JStr ''a'')] ''tempo'' = None" by simp
  have a4: "(60::int) \<le> 110" by simp
  have a5: "(110::int) \<le> 180" by simp
  from missing_tempo_excluded
         [where fmap = "[KStr ''a'' \<mapsto> JObj [(''id'', JStr ''a'')]]" and k = "KStr ''a''",
          OF a1 a2 a3 a4 a5]
  have "meets_tempo [KStr ''a'' \<mapsto> JObj [(''id'', JStr ''a'')]] 110 (sample_track ''a'') = Inr False"
    by (elim conjE)
  with a1 a2 a3 show ?thesis by (intro conjI)
qed

end
